theory Spec2Isabelle
  imports Complex_Main
begin

section \<open>Data model (packages/shared, schema mccmc\_v2)\<close>

text \<open>
  The canonical record has four fixed groups. The groups are polymorphic in the type of
  their leaves, so that the same shape serves the validated form (leaves are strings and
  booleans) and the output of the LLM categorizer before schema validation (groups and
  leaves may be absent).

  A JavaScript string is modelled as \<^typ>\<open>string\<close>: a list of code units below 256.
  A JavaScript number that is only compared (the OCR confidence) is a \<^typ>\<open>real\<close>.
\<close>

record 's FormHeader =
  recipientName :: 's
  date :: 's
  time :: 's
  recipientIdentifier :: 's
  dob :: 's
  location :: 's

record 'b CareCoordinationType =
  sih :: 'b
  hcbw :: 'b

record 's NarrativeSections =
  recipientAndVisitObservations :: 's
  healthEmotionalStatus :: 's
  reviewOfServices :: 's
  progressTowardGoals :: 's
  additionalNotes :: 's
  followUpTasks :: 's

text \<open>The field \<open>signature.signature\<close> is named \<open>signature_text\<close>: the group has the same name.\<close>

record 's Signature =
  careCoordinatorName :: 's
  signature_text :: 's
  dateSigned :: 's

record ('h, 'c, 'n, 'g) FormShape =
  header :: 'h
  careCoordinationType :: 'c
  narrative :: 'n
  signature :: 'g

type_synonym MonthlyCareCoordinationForm =
  "(string FormHeader, bool CareCoordinationType, string NarrativeSections, string Signature) FormShape"

datatype ConfidenceLevel = High | Medium | Low

datatype ExtractionMethod = OcrOnly | LlmStructured | LlmCategorized | VisionLlm | Manual

record FieldConfidence =
  field :: string
  confidence :: ConfidenceLevel
  ocrConfidence :: real
  source :: ExtractionMethod

definition createEmptyForm :: MonthlyCareCoordinationForm where
  "createEmptyForm =
     \<lparr> header = \<lparr> recipientName = [], date = [], time = [], recipientIdentifier = [],
                   dob = [], location = [] \<rparr>,
       careCoordinationType = \<lparr> sih = False, hcbw = False \<rparr>,
       narrative = \<lparr> recipientAndVisitObservations = [], healthEmotionalStatus = [],
                      reviewOfServices = [], progressTowardGoals = [], additionalNotes = [],
                      followUpTasks = [] \<rparr>,
       signature = \<lparr> careCoordinatorName = [], signature_text = [], dateSigned = [] \<rparr> \<rparr>"

datatype FieldType = TextField | Checkbox | Textarea

text \<open>\<open>FORM_FIELDS\<close>: path and type of every entry of the schema's field-metadata table.\<close>

definition FORM_FIELDS :: "(string \<times> FieldType) list" where
  "FORM_FIELDS =
     [ (''header.recipientName'', TextField),
       (''header.date'', TextField),
       (''header.time'', TextField),
       (''header.recipientIdentifier'', TextField),
       (''header.dob'', TextField),
       (''header.location'', TextField),
       (''careCoordinationType.sih'', Checkbox),
       (''careCoordinationType.hcbw'', Checkbox),
       (''narrative.recipientAndVisitObservations'', Textarea),
       (''narrative.healthEmotionalStatus'', Textarea),
       (''narrative.reviewOfServices'', Textarea),
       (''narrative.progressTowardGoals'', Textarea),
       (''narrative.additionalNotes'', Textarea),
       (''narrative.followUpTasks'', Textarea),
       (''signature.careCoordinatorName'', TextField),
       (''signature.signature'', TextField),
       (''signature.dateSigned'', TextField) ]"

section \<open>Confidence scorer (parser.ts, generateConfidenceScores)\<close>

text \<open>\<open>!!s\<close> on a string: false exactly for the empty string.\<close>

definition truthy :: "string \<Rightarrow> bool" where
  "truthy s = (s \<noteq> [])"

definition baseConfidence :: "real \<Rightarrow> ConfidenceLevel" where
  "baseConfidence baseOcrConfidence =
     (if baseOcrConfidence > 80 then High else if baseOcrConfidence > 50 then Medium else Low)"

text \<open>The three assignments to \<open>level\<close> in the closure \<open>addField\<close>, in the source's order.\<close>

definition fieldLevel :: "ConfidenceLevel \<Rightarrow> ExtractionMethod \<Rightarrow> bool \<Rightarrow> ConfidenceLevel" where
  "fieldLevel base method hasValue =
     (let level = base;
          level = (if method = OcrOnly
                   then (if level = High then Medium else if level = Medium then Low else level)
                   else level);
          level = (if method = LlmCategorized \<and> hasValue
                   then (if level = Low then Medium else if level = Medium then High else level)
                   else level);
          level = (if \<not> hasValue then Low else level)
      in level)"

definition addField :: "real \<Rightarrow> ExtractionMethod \<Rightarrow> string \<Rightarrow> bool \<Rightarrow> FieldConfidence" where
  "addField baseOcrConfidence method fld hasValue =
     \<lparr> field = fld,
       confidence = fieldLevel (baseConfidence baseOcrConfidence) method hasValue,
       ocrConfidence = baseOcrConfidence,
       source = method \<rparr>"

definition generateConfidenceScores ::
  "MonthlyCareCoordinationForm \<Rightarrow> real \<Rightarrow> ExtractionMethod \<Rightarrow> FieldConfidence list" where
  "generateConfidenceScores form baseOcrConfidence method =
     (let add = addField baseOcrConfidence method in
      [ add ''header.recipientName'' (truthy (recipientName (header form))),
        add ''header.date'' (truthy (date (header form))),
        add ''header.time'' (truthy (time (header form))),
        add ''header.recipientIdentifier'' (truthy (recipientIdentifier (header form))),
        add ''header.dob'' (truthy (dob (header form))),
        add ''header.location'' (truthy (location (header form))),
        add ''careCoordinationType.sih'' True,
        add ''careCoordinationType.hcbw'' True,
        add ''narrative.recipientAndVisitObservations''
            (truthy (recipientAndVisitObservations (narrative form))),
        add ''narrative.healthEmotionalStatus'' (truthy (healthEmotionalStatus (narrative form))),
        add ''narrative.reviewOfServices'' (truthy (reviewOfServices (narrative form))),
        add ''narrative.progressTowardGoals'' (truthy (progressTowardGoals (narrative form))),
        add ''narrative.additionalNotes'' (truthy (additionalNotes (narrative form))),
        add ''narrative.followUpTasks'' (truthy (followUpTasks (narrative form))),
        add ''signature.careCoordinatorName'' (truthy (careCoordinatorName (signature form))),
        add ''signature.signature'' (truthy (signature_text (signature form))),
        add ''signature.dateSigned'' (truthy (dateSigned (signature form))) ])"

text \<open>The order of the tiers, for comparing them: low below medium below high.\<close>

fun tierRank :: "ConfidenceLevel \<Rightarrow> nat" where
  "tierRank Low = 0"
| "tierRank Medium = 1"
| "tierRank High = 2"

section \<open>JavaScript strings\<close>

text \<open>
  \<open>String.prototype.toLowerCase\<close> on code units below 256: the ASCII capitals and the
  Latin-1 capitals (all of C0 to DE but the multiplication sign D7) move up by 32.
\<close>

definition upperLetters :: string where
  "upperLetters = ''ABCDEFGHIJKLMNOPQRSTUVWXYZ'' @
     [CHR 0xC0, CHR 0xC1, CHR 0xC2, CHR 0xC3, CHR 0xC4, CHR 0xC5, CHR 0xC6, CHR 0xC7,
      CHR 0xC8, CHR 0xC9, CHR 0xCA, CHR 0xCB, CHR 0xCC, CHR 0xCD, CHR 0xCE, CHR 0xCF,
      CHR 0xD0, CHR 0xD1, CHR 0xD2, CHR 0xD3, CHR 0xD4, CHR 0xD5, CHR 0xD6,
      CHR 0xD8, CHR 0xD9, CHR 0xDA, CHR 0xDB, CHR 0xDC, CHR 0xDD, CHR 0xDE]"

definition lowerLetters :: string where
  "lowerLetters = ''abcdefghijklmnopqrstuvwxyz'' @
     [CHR 0xE0, CHR 0xE1, CHR 0xE2, CHR 0xE3, CHR 0xE4, CHR 0xE5, CHR 0xE6, CHR 0xE7,
      CHR 0xE8, CHR 0xE9, CHR 0xEA, CHR 0xEB, CHR 0xEC, CHR 0xED, CHR 0xEE, CHR 0xEF,
      CHR 0xF0, CHR 0xF1, CHR 0xF2, CHR 0xF3, CHR 0xF4, CHR 0xF5, CHR 0xF6,
      CHR 0xF8, CHR 0xF9, CHR 0xFA, CHR 0xFB, CHR 0xFC, CHR 0xFD, CHR 0xFE]"

definition toLowerChar :: "char \<Rightarrow> char" where
  "toLowerChar c = (case map_of (zip upperLetters lowerLetters) c of Some l \<Rightarrow> l | None \<Rightarrow> c)"

definition toLowerCase :: "string \<Rightarrow> string" where
  "toLowerCase s = map toLowerChar s"

text \<open>White space and line terminators of ECMAScript below 256 (\<open>trim\<close> and \<open>\s\<close>).\<close>

definition isWhiteSpace :: "char \<Rightarrow> bool" where
  "isWhiteSpace c \<longleftrightarrow>
     c \<in> set [CHR 0x09, CHR 0x0A, CHR 0x0B, CHR 0x0C, CHR 0x0D, CHR 0x20, CHR 0xA0]"

definition trim :: "string \<Rightarrow> string" where
  "trim s = rev (dropWhile isWhiteSpace (rev (dropWhile isWhiteSpace s)))"

definition startsWith :: "string \<Rightarrow> string \<Rightarrow> bool" where
  "startsWith s pat \<longleftrightarrow> take (length pat) s = pat"

text \<open>
  \<open>s.indexOf(pat, from)\<close>: the first index at or after \<open>from\<close> where \<open>pat\<close> starts;
  \<open>None\<close> stands for \<open>-1\<close>.
\<close>

fun indexOfAux :: "string \<Rightarrow> string \<Rightarrow> nat \<Rightarrow> nat option" where
  "indexOfAux pat [] i = (if pat = [] then Some i else None)"
| "indexOfAux pat (c # cs) i =
     (if startsWith (c # cs) pat then Some i else indexOfAux pat cs (Suc i))"

definition indexOf :: "string \<Rightarrow> string \<Rightarrow> nat \<Rightarrow> nat option" where
  "indexOf s pat from = (if from \<le> length s then indexOfAux pat (drop from s) from
                         else indexOfAux pat [] (length s))"

definition includes_str :: "string \<Rightarrow> string \<Rightarrow> bool" where
  "includes_str s pat \<longleftrightarrow> indexOf s pat 0 \<noteq> None"

text \<open>\<open>s.slice(start, end)\<close> and \<open>s.substring(start, end)\<close> for indices that are not negative.\<close>

definition slice :: "string \<Rightarrow> nat \<Rightarrow> nat \<Rightarrow> string" where
  "slice s start stop = take (stop - start) (drop start s)"

definition substring :: "string \<Rightarrow> nat \<Rightarrow> nat \<Rightarrow> string" where
  "substring s a b = take (max a b - min a b) (drop (min a b) s)"

text \<open>\<open>s.split(sep)\<close> for a separator of one character: never the empty list.\<close>

fun splitOn :: "char \<Rightarrow> string \<Rightarrow> string list" where
  "splitOn sep [] = [[]]"
| "splitOn sep (c # cs) =
     (if c = sep then [] # splitOn sep cs
      else (case splitOn sep cs of p # ps \<Rightarrow> (c # p) # ps | [] \<Rightarrow> [[c]]))"

fun joinWith :: "string \<Rightarrow> string list \<Rightarrow> string" where
  "joinWith sep [] = []"
| "joinWith sep [x] = x"
| "joinWith sep (x # y # ys) = x @ sep @ joinWith sep (y # ys)"

text \<open>\<open>String(n)\<close> for a natural number: its decimal numeral.\<close>

definition digitChar :: "nat \<Rightarrow> char" where
  "digitChar d = ''0123456789'' ! d"

function decimal :: "nat \<Rightarrow> string" where
  "decimal n = (if n < 10 then [digitChar n] else decimal (n div 10) @ [digitChar (n mod 10)])"
  by pat_completeness auto

termination decimal
  by (relation "measure id") auto

declare decimal.simps [simp del]

section \<open>Regular expressions\<close>

text \<open>
  The fragment of ECMAScript regular expressions that the repository uses: literals (as
  written or under the flag \<open>i\<close>), character classes, sequence, alternation, greedy and
  lazy repetition of a character class, one capture group, and the assertions \<open>^\<close>,
  \<open>$\<close> and \<open>\b\<close>. The matcher lists every way a pattern can match at a position in the
  order in which a backtracking matcher tries them; the first is the match.
\<close>

datatype regex =
    Chr "char \<Rightarrow> bool"
  | Lit string
  | LitI string
  | Eps
  | Seq regex regex
  | Alt regex regex
  | Rep "char \<Rightarrow> bool" nat "nat option"
  | RepLazy "char \<Rightarrow> bool" nat "nat option"
  | Group regex
  | Bol
  | Eol
  | WordBoundary

definition isDigit :: "char \<Rightarrow> bool" where
  "isDigit c \<longleftrightarrow> c \<in> set ''0123456789''"

definition isWordChar :: "char \<Rightarrow> bool" where
  "isWordChar c \<longleftrightarrow>
     c \<in> set (''abcdefghijklmnopqrstuvwxyz'' @ ''ABCDEFGHIJKLMNOPQRSTUVWXYZ'' @ ''0123456789_'')"

text \<open>The dot matches all but the line terminators; \<open>[\s\S]\<close> matches every character.\<close>

definition dot :: "char \<Rightarrow> bool" where
  "dot c \<longleftrightarrow> c \<notin> set [CHR 0x0A, CHR 0x0D]"

definition anyChar :: "char \<Rightarrow> bool" where
  "anyChar c \<longleftrightarrow> True"

definition oneOf :: "string \<Rightarrow> char \<Rightarrow> bool" where
  "oneOf cs c \<longleftrightarrow> c \<in> set cs"

text \<open>
  A matcher state: the text before the position (reversed), the text from the position
  on, and the text of the capture group if it has matched.
\<close>

type_synonym mstate = "string \<times> string \<times> string option"

definition advance :: "mstate \<Rightarrow> nat \<Rightarrow> mstate" where
  "advance st n = (case st of (b, r, g) \<Rightarrow> (rev (take n r) @ b, drop n r, g))"

definition runLength :: "(char \<Rightarrow> bool) \<Rightarrow> nat option \<Rightarrow> string \<Rightarrow> nat" where
  "runLength p hi r =
     (let k = length (takeWhile p r) in case hi of None \<Rightarrow> k | Some h \<Rightarrow> min h k)"

fun matchesAt :: "regex \<Rightarrow> mstate \<Rightarrow> mstate list" where
  "matchesAt (Chr p) (b, r, g) =
     (case r of [] \<Rightarrow> [] | c # cs \<Rightarrow> if p c then [(c # b, cs, g)] else [])"
| "matchesAt (Lit s) (b, r, g) =
     (if take (length s) r = s then [advance (b, r, g) (length s)] else [])"
| "matchesAt (LitI s) (b, r, g) =
     (if length s \<le> length r \<and> toLowerCase (take (length s) r) = toLowerCase s
      then [advance (b, r, g) (length s)] else [])"
| "matchesAt Eps st = [st]"
| "matchesAt (Seq x y) st = concat (map (matchesAt y) (matchesAt x st))"
| "matchesAt (Alt x y) st = matchesAt x st @ matchesAt y st"
| "matchesAt (Rep p lo hi) (b, r, g) =
     map (advance (b, r, g)) (rev [lo ..< Suc (runLength p hi r)])"
| "matchesAt (RepLazy p lo hi) (b, r, g) =
     map (advance (b, r, g)) [lo ..< Suc (runLength p hi r)]"
| "matchesAt (Group x) (b, r, g) =
     map (\<lambda>(b', r', g'). (b', r', Some (rev (take (length b' - length b) b'))))
         (matchesAt x (b, r, g))"
| "matchesAt Bol (b, r, g) = (if b = [] then [(b, r, g)] else [])"
| "matchesAt Eol (b, r, g) = (if r = [] then [(b, r, g)] else [])"
| "matchesAt WordBoundary (b, r, g) =
     (let wordLeft = (case b of [] \<Rightarrow> False | c # _ \<Rightarrow> isWordChar c);
          wordRight = (case r of [] \<Rightarrow> False | c # _ \<Rightarrow> isWordChar c)
      in if wordLeft \<noteq> wordRight then [(b, r, g)] else [])"

text \<open>The patterns without a capture group: they leave the capture of the state alone.\<close>

fun noGroup :: "regex \<Rightarrow> bool" where
  "noGroup (Group x) = False"
| "noGroup (Seq x y) = (noGroup x \<and> noGroup y)"
| "noGroup (Alt x y) = (noGroup x \<and> noGroup y)"
| "noGroup x = True"

text \<open>
  The patterns whose capture group takes part in every match: a group; a sequence that
  ends in such a pattern, or that starts with one and goes on without a group; an
  alternation of such patterns.
\<close>

fun alwaysCaptures :: "regex \<Rightarrow> bool" where
  "alwaysCaptures (Group x) = True"
| "alwaysCaptures (Seq x y) = (alwaysCaptures y \<or> alwaysCaptures x \<and> noGroup y)"
| "alwaysCaptures (Alt x y) = (alwaysCaptures x \<and> alwaysCaptures y)"
| "alwaysCaptures x = False"

text \<open>
  A successful match: the index where it starts, the matched text (\<open>match[0]\<close>) and the
  text of the capture group (\<open>match[1]\<close>, \<open>None\<close> for \<open>undefined\<close>).
\<close>

record rmatch =
  index :: nat
  matched :: string
  group1 :: "string option"

text \<open>The search for the leftmost match, as \<open>s.match(re)\<close> and \<open>re.test(s)\<close> do.\<close>

definition found :: "string \<Rightarrow> mstate \<Rightarrow> rmatch" where
  "found b st =
     (case st of (b', r', g') \<Rightarrow>
        \<lparr> index = length b, matched = rev (take (length b' - length b) b'), group1 = g' \<rparr>)"

fun searchFrom :: "regex \<Rightarrow> string \<Rightarrow> string \<Rightarrow> rmatch option" where
  "searchFrom rx b [] =
     (case matchesAt rx (b, [], None) of st # _ \<Rightarrow> Some (found b st) | [] \<Rightarrow> None)"
| "searchFrom rx b (c # cs) =
     (case matchesAt rx (b, c # cs, None) of
        st # _ \<Rightarrow> Some (found b st)
      | [] \<Rightarrow> searchFrom rx (c # b) cs)"

definition match :: "string \<Rightarrow> regex \<Rightarrow> rmatch option" where
  "match s rx = searchFrom rx [] s"

definition test :: "regex \<Rightarrow> string \<Rightarrow> bool" where
  "test rx s \<longleftrightarrow> match s rx \<noteq> None"

section \<open>Untyped values and schema validation (zod)\<close>

text \<open>
  A value of type \<open>unknown\<close> as \<open>JSON.parse\<close> produces it. A number keeps its literal: no
  modelled operation computes with one. An object is the list of its members in source
  order; a later member with the same key wins.
\<close>

datatype json =
    JNull
  | JBool bool
  | JNum string
  | JStr string
  | JArr "json list"
  | JObj "(string \<times> json) list"

definition jsonGet :: "(string \<times> json) list \<Rightarrow> string \<Rightarrow> json option" where
  "jsonGet members k = map_of (rev members) k"

text \<open>The validated form as the object it is at run time.\<close>

definition form_to_json :: "MonthlyCareCoordinationForm \<Rightarrow> json" where
  "form_to_json f =
     JObj [ (''header'', JObj [ (''recipientName'', JStr (recipientName (header f))),
                               (''date'', JStr (date (header f))),
                               (''time'', JStr (time (header f))),
                               (''recipientIdentifier'', JStr (recipientIdentifier (header f))),
                               (''dob'', JStr (dob (header f))),
                               (''location'', JStr (location (header f))) ]),
            (''careCoordinationType'',
               JObj [ (''sih'', JBool (sih (careCoordinationType f))),
                      (''hcbw'', JBool (hcbw (careCoordinationType f))) ]),
            (''narrative'',
               JObj [ (''recipientAndVisitObservations'',
                         JStr (recipientAndVisitObservations (narrative f))),
                      (''healthEmotionalStatus'', JStr (healthEmotionalStatus (narrative f))),
                      (''reviewOfServices'', JStr (reviewOfServices (narrative f))),
                      (''progressTowardGoals'', JStr (progressTowardGoals (narrative f))),
                      (''additionalNotes'', JStr (additionalNotes (narrative f))),
                      (''followUpTasks'', JStr (followUpTasks (narrative f))) ]),
            (''signature'',
               JObj [ (''careCoordinatorName'', JStr (careCoordinatorName (signature f))),
                      (''signature'', JStr (signature_text (signature f))),
                      (''dateSigned'', JStr (dateSigned (signature f))) ]) ]"

text \<open>
  \<open>current[part]\<close>, the property read of \<open>getValueAtPath\<close> (pdfExport.ts); \<open>None\<close> is
  \<open>undefined\<close>. An object has its members. A string and an array have \<open>length\<close> and
  one property for each index, whose key is the decimal numeral of the index. A boolean
  and a number have no property of their own. What a value inherits from its prototype
  (methods such as \<open>toString\<close>) are functions, which are no values of the model: the
  read of an inherited member is outside the model and is given as \<open>None\<close>.
\<close>

definition indexOfKey :: "nat \<Rightarrow> string \<Rightarrow> nat option" where
  "indexOfKey n key = find (\<lambda>i. decimal i = key) [0 ..< n]"

definition stringProperty :: "string \<Rightarrow> string \<Rightarrow> json option" where
  "stringProperty s key =
     (if key = ''length'' then Some (JNum (decimal (length s)))
      else map_option (\<lambda>i. JStr [s ! i]) (indexOfKey (length s) key))"

definition arrayProperty :: "json list \<Rightarrow> string \<Rightarrow> json option" where
  "arrayProperty xs key =
     (if key = ''length'' then Some (JNum (decimal (length xs)))
      else map_option (\<lambda>i. xs ! i) (indexOfKey (length xs) key))"

definition getProperty :: "json \<Rightarrow> string \<Rightarrow> json option" where
  "getProperty current part =
     (case current of
        JObj members \<Rightarrow> jsonGet members part
      | JStr s \<Rightarrow> stringProperty s part
      | JArr xs \<Rightarrow> arrayProperty xs part
      | _ \<Rightarrow> None)"

text \<open>
  \<open>getValueAtPath\<close>: the loop over the parts of the dotted path, which returns
  \<open>undefined\<close> as soon as the current value is \<open>null\<close> or \<open>undefined\<close>.
\<close>

fun walkPath :: "json option \<Rightarrow> string list \<Rightarrow> json option" where
  "walkPath current [] = current"
| "walkPath current (part # parts) =
     (case current of
        None \<Rightarrow> None
      | Some JNull \<Rightarrow> None
      | Some v \<Rightarrow> walkPath (getProperty v part) parts)"

definition getValueAtPath :: "json \<Rightarrow> string \<Rightarrow> json option" where
  "getValueAtPath obj path = walkPath (Some obj) (splitOn (CHR ''.'') path)"

text \<open>
  Zod schemas. A schema maps the value at a path (\<open>None\<close> when the key is absent) to the
  parsed value or to the paths of its issues. \<open>z.string().default('')\<close> and
  \<open>z.boolean().default(false)\<close> replace an absent value by the default and accept no
  other type; \<open>z.object\<close> wants an object, parses the declared keys, drops the others and
  collects the issues of all its fields.
\<close>

type_synonym 'a zresult = "string list + 'a"

definition zStringDefault :: "string \<Rightarrow> json option \<Rightarrow> string zresult" where
  "zStringDefault path v =
     (case v of None \<Rightarrow> Inr [] | Some (JStr s) \<Rightarrow> Inr s | Some _ \<Rightarrow> Inl [path])"

definition zBooleanDefault :: "string \<Rightarrow> json option \<Rightarrow> bool zresult" where
  "zBooleanDefault path v =
     (case v of None \<Rightarrow> Inr False | Some (JBool b) \<Rightarrow> Inr b | Some _ \<Rightarrow> Inl [path])"

fun zap :: "('a \<Rightarrow> 'b) zresult \<Rightarrow> 'a zresult \<Rightarrow> 'b zresult" where
  "zap (Inr f) (Inr x) = Inr (f x)"
| "zap (Inr f) (Inl e) = Inl e"
| "zap (Inl e) (Inr x) = Inl e"
| "zap (Inl e) (Inl e') = Inl (e @ e')"

definition FormHeaderSchema :: "string \<Rightarrow> json option \<Rightarrow> string FormHeader zresult" where
  "FormHeaderSchema path v =
     (case v of
        Some (JObj m) \<Rightarrow>
          zap (zap (zap (zap (zap (zap
            (Inr (\<lambda>a b c d e f. \<lparr> recipientName = a, date = b, time = c,
                                  recipientIdentifier = d, dob = e, location = f \<rparr>))
            (zStringDefault (path @ ''.recipientName'') (jsonGet m ''recipientName'')))
            (zStringDefault (path @ ''.date'') (jsonGet m ''date'')))
            (zStringDefault (path @ ''.time'') (jsonGet m ''time'')))
            (zStringDefault (path @ ''.recipientIdentifier'') (jsonGet m ''recipientIdentifier'')))
            (zStringDefault (path @ ''.dob'') (jsonGet m ''dob'')))
            (zStringDefault (path @ ''.location'') (jsonGet m ''location''))
      | _ \<Rightarrow> Inl [path])"

definition CareCoordinationTypeSchema ::
  "string \<Rightarrow> json option \<Rightarrow> bool CareCoordinationType zresult" where
  "CareCoordinationTypeSchema path v =
     (case v of
        Some (JObj m) \<Rightarrow>
          zap (zap (Inr (\<lambda>a b. \<lparr> sih = a, hcbw = b \<rparr>))
            (zBooleanDefault (path @ ''.sih'') (jsonGet m ''sih'')))
            (zBooleanDefault (path @ ''.hcbw'') (jsonGet m ''hcbw''))
      | _ \<Rightarrow> Inl [path])"

definition NarrativeSectionsSchema ::
  "string \<Rightarrow> json option \<Rightarrow> string NarrativeSections zresult" where
  "NarrativeSectionsSchema path v =
     (case v of
        Some (JObj m) \<Rightarrow>
          zap (zap (zap (zap (zap (zap
            (Inr (\<lambda>a b c d e f. \<lparr> recipientAndVisitObservations = a, healthEmotionalStatus = b,
                                  reviewOfServices = c, progressTowardGoals = d,
                                  additionalNotes = e, followUpTasks = f \<rparr>))
            (zStringDefault (path @ ''.recipientAndVisitObservations'')
               (jsonGet m ''recipientAndVisitObservations'')))
            (zStringDefault (path @ ''.healthEmotionalStatus'') (jsonGet m ''healthEmotionalStatus'')))
            (zStringDefault (path @ ''.reviewOfServices'') (jsonGet m ''reviewOfServices'')))
            (zStringDefault (path @ ''.progressTowardGoals'') (jsonGet m ''progressTowardGoals'')))
            (zStringDefault (path @ ''.additionalNotes'') (jsonGet m ''additionalNotes'')))
            (zStringDefault (path @ ''.followUpTasks'') (jsonGet m ''followUpTasks''))
      | _ \<Rightarrow> Inl [path])"

definition SignatureSchema :: "string \<Rightarrow> json option \<Rightarrow> string Signature zresult" where
  "SignatureSchema path v =
     (case v of
        Some (JObj m) \<Rightarrow>
          zap (zap (zap
            (Inr (\<lambda>a b c. \<lparr> careCoordinatorName = a, signature_text = b, dateSigned = c \<rparr>))
            (zStringDefault (path @ ''.careCoordinatorName'') (jsonGet m ''careCoordinatorName'')))
            (zStringDefault (path @ ''.signature'') (jsonGet m ''signature'')))
            (zStringDefault (path @ ''.dateSigned'') (jsonGet m ''dateSigned''))
      | _ \<Rightarrow> Inl [path])"

definition MonthlyCareCoordinationFormSchema ::
  "json option \<Rightarrow> MonthlyCareCoordinationForm zresult" where
  "MonthlyCareCoordinationFormSchema v =
     (case v of
        Some (JObj m) \<Rightarrow>
          zap (zap (zap (zap
            (Inr (\<lambda>h c n s. \<lparr> header = h, careCoordinationType = c, narrative = n,
                              signature = s \<rparr>))
            (FormHeaderSchema ''header'' (jsonGet m ''header'')))
            (CareCoordinationTypeSchema ''careCoordinationType'' (jsonGet m ''careCoordinationType'')))
            (NarrativeSectionsSchema ''narrative'' (jsonGet m ''narrative'')))
            (SignatureSchema ''signature'' (jsonGet m ''signature''))
      | _ \<Rightarrow> Inl [[]])"

text \<open>
  \<open>validateForm\<close> throws the ZodError that \<open>safeValidateForm\<close> returns: both are the
  schema's parse, with the issues on the left.
\<close>

definition validateForm :: "json \<Rightarrow> MonthlyCareCoordinationForm zresult" where
  "validateForm data = MonthlyCareCoordinationFormSchema (Some data)"

definition safeValidateForm :: "json \<Rightarrow> MonthlyCareCoordinationForm zresult" where
  "safeValidateForm data = MonthlyCareCoordinationFormSchema (Some data)"

section \<open>Exceptions\<close>

text \<open>
  What the modelled code throws. \<open>TimeoutError\<close> is the error of \<open>AbortSignal.timeout\<close>,
  the one with \<open>error.name === 'TimeoutError'\<close>; \<open>SyntaxError\<close> is what \<open>JSON.parse\<close>
  throws; \<open>TypeError\<close> is what a method call on \<open>undefined\<close> throws, as \<open>match[1].trim()\<close>
  does when group 1 took no part in the match; \<open>Error\<close> carries the message of a
  \<open>new Error(...)\<close>. \<open>ErrorWithIssues\<close> is the \<open>new Error\<close> whose message is a prefix
  followed by the message of a ZodError: it carries the prefix and, in place of the text
  that zod makes of the issues, the paths of the issues.
\<close>

datatype error =
    TimeoutError
  | SyntaxError
  | TypeError
  | Error string
  | ErrorWithIssues string "string list"

text \<open>Statements that may throw, in sequence: the first exception ends the sequence.\<close>

definition andThen :: "error + 'a \<Rightarrow> ('a \<Rightarrow> error + 'b) \<Rightarrow> error + 'b" where
  "andThen r k = (case r of Inl e \<Rightarrow> Inl e | Inr x \<Rightarrow> k x)"

section \<open>Rule-based extractor (parser.ts, parseWithRules)\<close>

fun seqs :: "regex list \<Rightarrow> regex" where
  "seqs [] = Eps"
| "seqs [x] = x"
| "seqs (x # y # ys) = Seq x (seqs (y # ys))"

fun alts :: "regex list \<Rightarrow> regex" where
  "alts [] = Chr (\<lambda>c. False)"
| "alts [x] = x"
| "alts (x # y # ys) = Alt x (alts (y # ys))"

text \<open>\<open>x?\<close>, greedy: the pattern first, the empty match second.\<close>

definition opt :: "regex \<Rightarrow> regex" where
  "opt x = Alt x Eps"

text \<open>The part \<open>\s*[:\-]?\s*\<close> that follows the label in every header pattern.\<close>

definition labelSep :: "regex list" where
  "labelSep = [Rep isWhiteSpace 0 None, Rep (oneOf '':-'') 0 (Some 1), Rep isWhiteSpace 0 None]"

text \<open>\<open>\d{1,2}[\/\-\.]\d{1,2}[\/\-\.]\d{2,4}\<close>\<close>

definition looseDate :: regex where
  "looseDate = seqs [Rep isDigit 1 (Some 2), Chr (oneOf ''/-.''), Rep isDigit 1 (Some 2),
                     Chr (oneOf ''/-.''), Rep isDigit 2 (Some 4)]"

text \<open>\<open>/\bname\s*:/\<close>\<close>

definition nameLabelRx :: regex where
  "nameLabelRx = seqs [WordBoundary, Lit ''name'', Rep isWhiteSpace 0 None, Lit '':'']"

text \<open>\<open>/(?:recipient name|name)\s*[:\-]?\s*(.+)/i\<close>\<close>

definition recipientNameRx :: regex where
  "recipientNameRx =
     seqs ([alts [LitI ''recipient name'', LitI ''name'']] @ labelSep @ [Group (Rep dot 1 None)])"

text \<open>\<open>/date\s*[:\-]?\s*(\d{1,2}[\/\-\.]\d{1,2}[\/\-\.]\d{2,4})/i\<close>\<close>

definition dateRx :: regex where
  "dateRx = seqs ([LitI ''date''] @ labelSep @ [Group looseDate])"

text \<open>\<open>/time\s*[:\-]?\s*(\d{1,2}:\d{2}\s*(?:AM|PM|am|pm)?)/i\<close>\<close>

definition timeRx :: regex where
  "timeRx =
     seqs ([LitI ''time''] @ labelSep @
           [Group (seqs [Rep isDigit 1 (Some 2), Lit '':'', Rep isDigit 2 (Some 2),
                         Rep isWhiteSpace 0 None,
                         opt (alts [LitI ''AM'', LitI ''PM'', LitI ''am'', LitI ''pm''])])])"

text \<open>\<open>/(?:dob|date of birth)\s*[:\-]?\s*(\d{1,2}[\/\-\.]\d{1,2}[\/\-\.]\d{2,4})/i\<close>\<close>

definition dobRx :: regex where
  "dobRx = seqs ([alts [LitI ''dob'', LitI ''date of birth'']] @ labelSep @ [Group looseDate])"

text \<open>\<open>/location\s*[:\-]?\s*(.+)/i\<close>\<close>

definition locationRx :: regex where
  "locationRx = seqs ([LitI ''location''] @ labelSep @ [Group (Rep dot 1 None)])"

text \<open>\<open>/(?:recipient identifier|identifier|id)\s*[:\-]?\s*(.+)/i\<close>\<close>

definition identifierRx :: regex where
  "identifierRx =
     seqs ([alts [LitI ''recipient identifier'', LitI ''identifier'', LitI ''id'']] @ labelSep @
           [Group (Rep dot 1 None)])"

text \<open>\<open>/\[x\]|[X]|checked|yes/i\<close>\<close>

definition checkedPattern :: regex where
  "checkedPattern = alts [LitI ''[x]'', LitI ''X'', LitI ''checked'', LitI ''yes'']"

text \<open>
  \<open>if (match) target = match[1].trim()\<close>: nothing to assign when there is no match; the
  trimmed capture of the leftmost match when there is one; the TypeError of
  \<open>undefined.trim()\<close> when the match has no group 1.
\<close>

definition capture :: "regex \<Rightarrow> string \<Rightarrow> error + string option" where
  "capture rx line =
     (case match line rx of
        None \<Rightarrow> Inr None
      | Some m \<Rightarrow> (case group1 m of None \<Rightarrow> Inl TypeError | Some g \<Rightarrow> Inr (Some (trim g))))"

definition orKeep :: "'a option \<Rightarrow> 'a \<Rightarrow> 'a" where
  "orKeep v old = (case v of None \<Rightarrow> old | Some x \<Rightarrow> x)"

text \<open>
  The body of the loop over the lines: one definition for each \<open>if\<close> statement that
  assigns a field, then their sequence in the source's order. A statement that reads a
  capture may throw; the two that only test the checkbox pattern cannot.
\<close>

definition lineRecipientName ::
  "string \<Rightarrow> MonthlyCareCoordinationForm \<Rightarrow> error + MonthlyCareCoordinationForm" where
  "lineRecipientName line form =
     (if includes_str (toLowerCase line) ''recipient name'' \<or> test nameLabelRx (toLowerCase line)
      then andThen (capture recipientNameRx line)
             (\<lambda>v. Inr (form\<lparr>header := (header form)
                     \<lparr>recipientName := orKeep v (recipientName (header form))\<rparr>\<rparr>))
      else Inr form)"

definition lineDate ::
  "string \<Rightarrow> MonthlyCareCoordinationForm \<Rightarrow> error + MonthlyCareCoordinationForm" where
  "lineDate line form =
     (if includes_str (toLowerCase line) ''date'' \<and> \<not> includes_str (toLowerCase line) ''birth''
      then andThen (capture dateRx line)
             (\<lambda>v. Inr (form\<lparr>header := (header form)
                     \<lparr>date := orKeep v (date (header form))\<rparr>\<rparr>))
      else Inr form)"

definition lineTime ::
  "string \<Rightarrow> MonthlyCareCoordinationForm \<Rightarrow> error + MonthlyCareCoordinationForm" where
  "lineTime line form =
     (if includes_str (toLowerCase line) ''time''
      then andThen (capture timeRx line)
             (\<lambda>v. Inr (form\<lparr>header := (header form)
                     \<lparr>time := orKeep v (time (header form))\<rparr>\<rparr>))
      else Inr form)"

definition lineDob ::
  "string \<Rightarrow> MonthlyCareCoordinationForm \<Rightarrow> error + MonthlyCareCoordinationForm" where
  "lineDob line form =
     (if includes_str (toLowerCase line) ''dob'' \<or> includes_str (toLowerCase line) ''date of birth''
      then andThen (capture dobRx line)
             (\<lambda>v. Inr (form\<lparr>header := (header form)
                     \<lparr>dob := orKeep v (dob (header form))\<rparr>\<rparr>))
      else Inr form)"

definition lineLocation ::
  "string \<Rightarrow> MonthlyCareCoordinationForm \<Rightarrow> error + MonthlyCareCoordinationForm" where
  "lineLocation line form =
     (if includes_str (toLowerCase line) ''location''
      then andThen (capture locationRx line)
             (\<lambda>v. Inr (form\<lparr>header := (header form)
                     \<lparr>location := orKeep v (location (header form))\<rparr>\<rparr>))
      else Inr form)"

definition lineIdentifier ::
  "string \<Rightarrow> MonthlyCareCoordinationForm \<Rightarrow> error + MonthlyCareCoordinationForm" where
  "lineIdentifier line form =
     (if includes_str (toLowerCase line) ''identifier'' \<or> includes_str (toLowerCase line) ''id''
      then andThen (capture identifierRx line)
             (\<lambda>v. Inr (form\<lparr>header := (header form)
                     \<lparr>recipientIdentifier := orKeep v (recipientIdentifier (header form))\<rparr>\<rparr>))
      else Inr form)"

definition lineSih ::
  "string \<Rightarrow> MonthlyCareCoordinationForm \<Rightarrow> MonthlyCareCoordinationForm" where
  "lineSih line form =
     (if includes_str (toLowerCase line) ''sih''
      then form\<lparr>careCoordinationType := (careCoordinationType form)
             \<lparr>sih := test checkedPattern line\<rparr>\<rparr>
      else form)"

definition lineHcbw ::
  "string \<Rightarrow> MonthlyCareCoordinationForm \<Rightarrow> MonthlyCareCoordinationForm" where
  "lineHcbw line form =
     (if includes_str (toLowerCase line) ''hcbw''
      then form\<lparr>careCoordinationType := (careCoordinationType form)
             \<lparr>hcbw := test checkedPattern line\<rparr>\<rparr>
      else form)"

definition processLine ::
  "MonthlyCareCoordinationForm \<Rightarrow> string \<Rightarrow> error + MonthlyCareCoordinationForm" where
  "processLine form line =
     andThen (lineRecipientName line form) (\<lambda>form.
     andThen (lineDate line form) (\<lambda>form.
     andThen (lineTime line form) (\<lambda>form.
     andThen (lineDob line form) (\<lambda>form.
     andThen (lineLocation line form) (\<lambda>form.
     andThen (lineIdentifier line form) (\<lambda>form.
     Inr (lineHcbw line (lineSih line form))))))))"

text \<open>The loop \<open>for (let i = 0; i < lines.length; i++)\<close>: it ends at the first exception.\<close>

fun processLines ::
  "MonthlyCareCoordinationForm \<Rightarrow> string list \<Rightarrow> error + MonthlyCareCoordinationForm" where
  "processLines form [] = Inr form"
| "processLines form (line # lines) =
     andThen (processLine form line) (\<lambda>form. processLines form lines)"

definition sectionHeaders :: "string list" where
  "sectionHeaders =
     [ ''recipient & visit observations'',
       ''recipient and visit observations'',
       ''health/emotional status'',
       ''review of services'',
       ''progress toward goals'',
       ''additional notes'',
       ''follow up tasks'',
       ''followup tasks'',
       ''care coordinator follow up'',
       ''signature'' ]"

definition findNextSectionIndex :: "string \<Rightarrow> nat \<Rightarrow> nat" where
  "findNextSectionIndex text startPos =
     foldl (\<lambda>nextIndex hdr.
              case indexOf text hdr startPos of
                None \<Rightarrow> nextIndex
              | Some idx \<Rightarrow> if idx < nextIndex then idx else nextIndex)
           (length text) sectionHeaders"

text \<open>
  One pattern of a section: the content it yields, if the pattern occurs and more than
  10 characters of trimmed text follow it before the next header.
\<close>

definition sectionContent :: "string \<Rightarrow> string \<Rightarrow> string \<Rightarrow> string option" where
  "sectionContent text lowerText pattern =
     (case indexOf lowerText pattern 0 of
        None \<Rightarrow> None
      | Some idx \<Rightarrow>
          (let start = idx + length pattern;
               stop = findNextSectionIndex lowerText start;
               content = trim (slice text start stop)
           in if length content > 10 then Some (substring content 0 1000) else None))"

text \<open>The inner loop over the patterns of one section, left at the first content.\<close>

fun firstContent :: "string \<Rightarrow> string \<Rightarrow> string list \<Rightarrow> string option" where
  "firstContent text lowerText [] = None"
| "firstContent text lowerText (pattern # patterns) =
     (case sectionContent text lowerText pattern of
        Some c \<Rightarrow> Some c
      | None \<Rightarrow> firstContent text lowerText patterns)"

text \<open>\<open>Partial<narrative>\<close>: a key that was not assigned is \<open>None\<close>.\<close>

definition extractNarrativeSections :: "string \<Rightarrow> string option NarrativeSections" where
  "extractNarrativeSections text =
     (let lowerText = toLowerCase text; sec = firstContent text lowerText in
      \<lparr> recipientAndVisitObservations =
          sec [''recipient & visit observations'', ''recipient and visit observations'',
               ''visit observations''],
        healthEmotionalStatus =
          sec [''health/emotional status'', ''health emotional status'', ''med changes'',
               ''health status''],
        reviewOfServices = sec [''review of services'', ''services review''],
        progressTowardGoals =
          sec [''progress toward goals'', ''progress to goals'', ''goals progress''],
        additionalNotes = sec [''additional notes'', ''notes''],
        followUpTasks =
          sec [''follow up tasks'', ''followup tasks'', ''care coordinator follow up''] \<rparr>)"

text \<open>\<open>{ ...form.narrative, ...sections }\<close>\<close>

definition spreadNarrative ::
  "string NarrativeSections \<Rightarrow> string option NarrativeSections \<Rightarrow> string NarrativeSections" where
  "spreadNarrative old sections =
     \<lparr> recipientAndVisitObservations =
         orKeep (recipientAndVisitObservations sections) (recipientAndVisitObservations old),
       healthEmotionalStatus = orKeep (healthEmotionalStatus sections) (healthEmotionalStatus old),
       reviewOfServices = orKeep (reviewOfServices sections) (reviewOfServices old),
       progressTowardGoals = orKeep (progressTowardGoals sections) (progressTowardGoals old),
       additionalNotes = orKeep (additionalNotes sections) (additionalNotes old),
       followUpTasks = orKeep (followUpTasks sections) (followUpTasks old) \<rparr>"

record ParseResult =
  form :: MonthlyCareCoordinationForm
  confidences :: "FieldConfidence list"
  extractionMethod :: ExtractionMethod
  ollamaAvailable :: bool
  validationIssues :: "string list option"

definition ocrOnlyNote :: string where
  "ocrOnlyNote =
     ''OCR-only mode: Ollama not available. Fields extracted using pattern matching only.''"

definition reviewNote :: string where
  "reviewNote = ''Please review all fields carefully as automated extraction may contain errors.''"

text \<open>
  \<open>parseWithRules\<close>. The progress tracker and the logger only print; they are left out.
  The function has no \<open>throw\<close> of its own; the statements of the loop that read a capture
  are the ones that can raise, and an exception raised there leaves the function.
\<close>

definition parseWithRules :: "string \<Rightarrow> real \<Rightarrow> bool \<Rightarrow> error + ParseResult" where
  "parseWithRules text ocrConf available =
     (let form = createEmptyForm;
          lines = filter truthy (map trim (splitOn (CHR 0x0A) text))
      in andThen (processLines form lines) (\<lambda>form.
           let sections = extractNarrativeSections text;
               form = form\<lparr>narrative := spreadNarrative (narrative form) sections\<rparr>;
               notes = (if \<not> available then [ocrOnlyNote] else []) @ [reviewNote];
               form = (if truthy (additionalNotes (narrative form))
                       then form\<lparr>narrative := (narrative form)
                              \<lparr>additionalNotes :=
                                 joinWith [CHR 0x0A] notes @ [CHR 0x0A, CHR 0x0A] @
                                 additionalNotes (narrative form)\<rparr>\<rparr>
                       else form\<lparr>narrative := (narrative form)
                              \<lparr>additionalNotes := joinWith [CHR 0x0A] notes\<rparr>\<rparr>);
               confidence = generateConfidenceScores form ocrConf OcrOnly
           in Inr \<lparr> form = form, confidences = confidence, extractionMethod = OcrOnly,
                    ollamaAvailable = available, validationIssues = None \<rparr>))"

section \<open>LLM categorizer (llmCategorizer.ts)\<close>

text \<open>
  \<open>Partial<MonthlyCareCoordinationForm>\<close>, the declared type of the categorized data: a
  group may be absent, and the code also provides for an absent leaf (\<open>typeof value ===
  'string'\<close>, \<open>?.\<close>, \<open>||\<close>, \<open>??\<close>), so a leaf is optional too. \<open>None\<close> is \<open>undefined\<close>.
  Values outside the declared type are not modelled.
\<close>

type_synonym PartialForm =
  "(string option FormHeader option, bool option CareCoordinationType option,
    string option NarrativeSections option, string option Signature option) FormShape"

text \<open>\<open>ValidationIssue\<close>; its field \<open>field\<close> is named \<open>issue_field\<close>.\<close>

record ValidationIssue =
  issue_field :: string
  issue :: string
  suggestion :: "string option"

text \<open>
  \<open>checkLiteralString\<close>: the value to store and the issue pushed, if any. The source
  pushes to the shared list \<open>issues\<close>; here the new issues are returned and appended by
  the caller in the same order.
\<close>

definition placeholderIssue :: "string \<Rightarrow> string \<Rightarrow> ValidationIssue" where
  "placeholderIssue fld s =
     \<lparr> issue_field = fld,
       issue = ''Placeholder value found: '' @ [CHR 0x22] @ s @ [CHR 0x22],
       suggestion = Some ''Field not properly extracted from source text'' \<rparr>"

definition checkLiteralString :: "string option \<Rightarrow> string \<Rightarrow> string option \<times> ValidationIssue list" where
  "checkLiteralString v fld =
     (case v of
        Some s \<Rightarrow>
          if includes_str (toLowerCase s) ''string''
          then (Some [], [placeholderIssue fld s])
          else (v, [])
      | None \<Rightarrow> (v, []))"

text \<open>The block \<open>if (form.header) { ... }\<close>: the six header fields in the source's order.\<close>

definition cleanHeader ::
  "string option FormHeader \<Rightarrow> string option FormHeader \<times> ValidationIssue list" where
  "cleanHeader h =
     (let (n, i1) = checkLiteralString (recipientName h) ''header.recipientName'';
          (d, i2) = checkLiteralString (date h) ''header.date'';
          (t, i3) = checkLiteralString (time h) ''header.time'';
          (r, i4) = checkLiteralString (recipientIdentifier h) ''header.recipientIdentifier'';
          (b, i5) = checkLiteralString (dob h) ''header.dob'';
          (l, i6) = checkLiteralString (location h) ''header.location''
      in (\<lparr> recipientName = n, date = d, time = t, recipientIdentifier = r, dob = b,
             location = l \<rparr>,
          i1 @ i2 @ i3 @ i4 @ i5 @ i6))"

text \<open>
  \<open>/^(0[1-9]|1[0-2])\/([0-2][0-9]|3[01])\/\d{4}$/\<close>. The pattern is only tested, so its
  two groups are plain groupings here.
\<close>

definition monthRx :: regex where
  "monthRx = alts [Seq (Lit ''0'') (Chr (oneOf ''123456789'')), Seq (Lit ''1'') (Chr (oneOf ''012''))]"

definition dayRx :: regex where
  "dayRx = alts [Seq (Chr (oneOf ''012'')) (Chr (oneOf ''0123456789'')),
                 Seq (Lit ''3'') (Chr (oneOf ''01''))]"

definition dateRegex :: regex where
  "dateRegex = seqs [Bol, monthRx, Lit ''/'', dayRx, Lit ''/'', Rep isDigit 4 (Some 4), Eol]"

text \<open>
  \<open>form.header?.date && !dateRegex.test(form.header.date) && form.header.date !== ''\<close>
  and the issue it pushes; \<open>label\<close> is \<open>date\<close> or \<open>DOB\<close>.
\<close>

definition dateIssue :: "string \<Rightarrow> string \<Rightarrow> string \<Rightarrow> ValidationIssue" where
  "dateIssue fld label v =
     \<lparr> issue_field = fld, issue = ''Invalid '' @ label @ '' format: '' @ v,
       suggestion = Some ''Should be MM/DD/YYYY'' \<rparr>"

definition checkDate :: "string option \<Rightarrow> string \<Rightarrow> string \<Rightarrow> ValidationIssue list" where
  "checkDate v fld label =
     (case v of
        None \<Rightarrow> []
      | Some s \<Rightarrow> if truthy s \<and> \<not> test dateRegex s \<and> s \<noteq> [] then [dateIssue fld label s] else [])"

text \<open>\<open>form.header?.x\<close>: the leaf of an optional group.\<close>

definition optField :: "'g option \<Rightarrow> ('g \<Rightarrow> 'a option) \<Rightarrow> 'a option" where
  "optField g sel = (case g of None \<Rightarrow> None | Some x \<Rightarrow> sel x)"

text \<open>
  \<open>Object.entries(narratives).filter(([key]) => key !== 'followUpTasks').some(...)\<close> over
  the keys of the declared type.
\<close>

definition narrativeHasContent :: "string option \<Rightarrow> bool" where
  "narrativeHasContent v =
     (case v of
        None \<Rightarrow> False
      | Some s \<Rightarrow> length s > 20 \<and> \<not> includes_str (toLowerCase s) ''string'')"

definition hasNarrativeContent :: "string option NarrativeSections option \<Rightarrow> bool" where
  "hasNarrativeContent narratives =
     (case narratives of
        None \<Rightarrow> False
      | Some n \<Rightarrow>
          list_ex narrativeHasContent
            [recipientAndVisitObservations n, healthEmotionalStatus n, reviewOfServices n,
             progressTowardGoals n, additionalNotes n])"

text \<open>The loop that clears narrative placeholders: no issue is pushed there.\<close>

definition clearPlaceholder :: "string option \<Rightarrow> string option" where
  "clearPlaceholder v =
     (case v of
        Some s \<Rightarrow> if includes_str (toLowerCase s) ''string'' then Some [] else v
      | None \<Rightarrow> v)"

definition cleanNarrative :: "string option NarrativeSections \<Rightarrow> string option NarrativeSections" where
  "cleanNarrative n =
     \<lparr> recipientAndVisitObservations = clearPlaceholder (recipientAndVisitObservations n),
       healthEmotionalStatus = clearPlaceholder (healthEmotionalStatus n),
       reviewOfServices = clearPlaceholder (reviewOfServices n),
       progressTowardGoals = clearPlaceholder (progressTowardGoals n),
       additionalNotes = clearPlaceholder (additionalNotes n),
       followUpTasks = clearPlaceholder (followUpTasks n) \<rparr>"

record Validation =
  issues :: "ValidationIssue list"
  corrected :: PartialForm

text \<open>
  \<open>validateCategorizedData\<close>. The source mutates the categorized object and returns it as
  \<open>corrected\<close>; the model returns the updated object.
\<close>

definition validateCategorizedData :: "PartialForm \<Rightarrow> Validation" where
  "validateCategorizedData form0 =
     (let (hdr, placeholderIssues) =
            (case header form0 of
               None \<Rightarrow> (None, [])
             | Some h \<Rightarrow> (let (h', is) = cleanHeader h in (Some h', is)));
          dateIssues = checkDate (optField hdr date) ''header.date'' ''date'';
          dobIssues = checkDate (optField hdr dob) ''header.dob'' ''DOB'';
          bothIssues =
            (if optField (careCoordinationType form0) sih = Some True
                \<and> optField (careCoordinationType form0) hcbw = Some True
             then [\<lparr> issue_field = ''careCoordinationType'',
                      issue = ''Both SIH and HCBW are checked'',
                      suggestion = Some ''Usually only one is selected'' \<rparr>]
             else []);
          nameIssues =
            (if (case optField hdr recipientName of
                   None \<Rightarrow> True
                 | Some s \<Rightarrow> \<not> truthy s \<or> trim s = [])
             then [\<lparr> issue_field = ''header.recipientName'',
                      issue = ''Recipient name not found in text'',
                      suggestion = Some ''Check OCR quality or manually enter'' \<rparr>]
             else []);
          narrativeIssues =
            (if \<not> hasNarrativeContent (narrative form0)
             then [\<lparr> issue_field = ''narrative'',
                      issue = ''No narrative content extracted'',
                      suggestion = Some ''OCR may have failed to capture text'' \<rparr>]
             else []);
          narr = map_option cleanNarrative (narrative form0)
      in \<lparr> issues = placeholderIssues @ dateIssues @ dobIssues @ bothIssues @ nameIssues
                      @ narrativeIssues,
           corrected = form0\<lparr> header := hdr, narrative := narr \<rparr> \<rparr>)"

text \<open>\<open>x || ''\<close> and \<open>x ?? false\<close> on an optional leaf.\<close>

definition orEmpty :: "string option \<Rightarrow> string" where
  "orEmpty v = (case v of None \<Rightarrow> [] | Some s \<Rightarrow> if truthy s then s else [])"

definition orFalse :: "bool option \<Rightarrow> bool" where
  "orFalse v = (case v of None \<Rightarrow> False | Some b \<Rightarrow> b)"

definition mergeWithDefaults :: "Validation \<Rightarrow> MonthlyCareCoordinationForm" where
  "mergeWithDefaults validation =
     (let d = corrected validation;
          validationNotes =
            (if issues validation \<noteq> []
             then ''EXTRACTION NOTES:'' @ [CHR 0x0A] @
                  joinWith [CHR 0x0A]
                    (map (\<lambda>i. ''- '' @ issue_field i @ '': '' @ issue i) (issues validation))
             else []);
          existingNotes = orEmpty (optField (narrative d) additionalNotes);
          combinedNotes =
            (if truthy validationNotes
             then validationNotes @ [CHR 0x0A, CHR 0x0A] @ ''---'' @ [CHR 0x0A, CHR 0x0A] @
                  existingNotes
             else existingNotes)
      in \<lparr> header =
             \<lparr> recipientName = orEmpty (optField (header d) recipientName),
               date = orEmpty (optField (header d) date),
               time = orEmpty (optField (header d) time),
               recipientIdentifier = orEmpty (optField (header d) recipientIdentifier),
               dob = orEmpty (optField (header d) dob),
               location = orEmpty (optField (header d) location) \<rparr>,
           careCoordinationType =
             \<lparr> sih = orFalse (optField (careCoordinationType d) sih),
               hcbw = orFalse (optField (careCoordinationType d) hcbw) \<rparr>,
           narrative =
             \<lparr> recipientAndVisitObservations =
                 orEmpty (optField (narrative d) recipientAndVisitObservations),
               healthEmotionalStatus = orEmpty (optField (narrative d) healthEmotionalStatus),
               reviewOfServices = orEmpty (optField (narrative d) reviewOfServices),
               progressTowardGoals = orEmpty (optField (narrative d) progressTowardGoals),
               additionalNotes = combinedNotes,
               followUpTasks = orEmpty (optField (narrative d) followUpTasks) \<rparr>,
           signature =
             \<lparr> careCoordinatorName = orEmpty (optField (signature d) careCoordinatorName),
               signature_text = orEmpty (optField (signature d) signature_text),
               dateSigned = orEmpty (optField (signature d) dateSigned) \<rparr> \<rparr>)"

text \<open>
  \<open>CategorizationResult\<close> without \<open>rawOutput\<close>, which the parser does not read. Its field
  \<open>form\<close> is named \<open>categorized_form\<close>.
\<close>

record CategorizationResult =
  categorized_form :: MonthlyCareCoordinationForm
  validationNotes :: "string list"

definition issueLine :: "ValidationIssue \<Rightarrow> string" where
  "issueLine i =
     issue_field i @ '': '' @ issue i @
     (case suggestion i of
        None \<Rightarrow> []
      | Some s \<Rightarrow> if truthy s then '' ('' @ s @ '')'' else [])"

text \<open>
  Steps 2 and 3 of \<open>categorizeAndValidateWithLLM\<close>, applied to the data that step 1
  (\<open>categorizeText\<close>) returned.
\<close>

definition validateAndMerge :: "PartialForm \<Rightarrow> CategorizationResult" where
  "validateAndMerge categorized =
     (let validation = validateCategorizedData categorized
      in \<lparr> categorized_form = mergeWithDefaults validation,
           validationNotes = map issueLine (issues validation) \<rparr>)"

subsection \<open>The date format as the specification words it\<close>

text \<open>
  \<open>MM/DD/YYYY\<close>, strict: ten characters, two digits of month from 01 to 12, a slash, two
  digits of day from 01 to 31, a slash, four digits of year. \<open>dateParts\<close> reads month and
  day off a text of that shape.
\<close>

definition digitValue :: "char \<Rightarrow> nat option" where
  "digitValue c = map_of (zip ''0123456789'' [0, 1, 2, 3, 4, 5, 6, 7, 8, 9]) c"

definition twoDigits :: "string \<Rightarrow> nat option" where
  "twoDigits s =
     (case s of
        [a, b] \<Rightarrow> (case (digitValue a, digitValue b) of
                     (Some x, Some y) \<Rightarrow> Some (10 * x + y)
                   | _ \<Rightarrow> None)
      | _ \<Rightarrow> None)"

definition dateParts :: "string \<Rightarrow> (nat \<times> nat) option" where
  "dateParts s =
     (if length s = 10 \<and> slice s 2 3 = ''/'' \<and> slice s 5 6 = ''/''
         \<and> list_all isDigit (slice s 6 10)
      then (case (twoDigits (slice s 0 2), twoDigits (slice s 3 5)) of
              (Some m, Some d) \<Rightarrow> Some (m, d)
            | _ \<Rightarrow> None)
      else None)"

definition strictDate :: "string \<Rightarrow> bool" where
  "strictDate s =
     (case dateParts s of
        None \<Rightarrow> False
      | Some (m, d) \<Rightarrow> 1 \<le> m \<and> m \<le> 12 \<and> 1 \<le> d \<and> d \<le> 31)"

text \<open>The texts \<open>MM/00/YYYY\<close> with a month from 01 to 12: a date but for its day 00.\<close>

definition dayZeroDate :: "string \<Rightarrow> bool" where
  "dayZeroDate s =
     (case dateParts s of
        None \<Rightarrow> False
      | Some (m, d) \<Rightarrow> 1 \<le> m \<and> m \<le> 12 \<and> d = 0)"

text \<open>The issues that the validation records for one field, in order.\<close>

definition issuesFor :: "string \<Rightarrow> ValidationIssue list \<Rightarrow> ValidationIssue list" where
  "issuesFor fld is = filter (\<lambda>i. issue_field i = fld) is"

subsection \<open>Sample categorizer outputs\<close>

definition noHeader :: "string option FormHeader" where
  "noHeader = \<lparr> recipientName = None, date = None, time = None, recipientIdentifier = None,
                dob = None, location = None \<rparr>"

definition noNarrative :: "string option NarrativeSections" where
  "noNarrative = \<lparr> recipientAndVisitObservations = None, healthEmotionalStatus = None,
                   reviewOfServices = None, progressTowardGoals = None, additionalNotes = None,
                   followUpTasks = None \<rparr>"

definition noSignature :: "string option Signature" where
  "noSignature = \<lparr> careCoordinatorName = None, signature_text = None, dateSigned = None \<rparr>"

text \<open>The scenario of the specification: an impossible date, a well-formed date of birth.\<close>

definition badDateOutput :: PartialForm where
  "badDateOutput =
     \<lparr> header = Some (noHeader\<lparr> recipientName := Some ''Test Patient'',
                                date := Some ''13/45/2024'', dob := Some ''01/15/1950'' \<rparr>),
       careCoordinationType = Some \<lparr> sih = Some True, hcbw = Some False \<rparr>,
       narrative = Some (noNarrative\<lparr> recipientAndVisitObservations :=
                                        Some ''Client doing well at home today.'' \<rparr>),
       signature = None \<rparr>"

text \<open>A model that echoed the word of the prompt in the date.\<close>

definition placeholderDateOutput :: PartialForm where
  "placeholderDateOutput =
     \<lparr> header = Some (noHeader\<lparr> recipientName := Some ''Test Patient'',
                                date := Some ''string'' \<rparr>),
       careCoordinationType = None,
       narrative = Some (noNarrative\<lparr> recipientAndVisitObservations :=
                                        Some ''Client doing well at home today.'' \<rparr>),
       signature = None \<rparr>"

text \<open>An empty date and a date of birth that carries the word of the prompt.\<close>

definition placeholderDobOutput :: PartialForm where
  "placeholderDobOutput =
     \<lparr> header = Some (noHeader\<lparr> recipientName := Some ''Test Patient'',
                                date := Some [], dob := Some ''a String'' \<rparr>),
       careCoordinationType = None,
       narrative = Some (noNarrative\<lparr> recipientAndVisitObservations :=
                                        Some ''Client doing well at home today.'' \<rparr>),
       signature = None \<rparr>"

text \<open>A well-formed date and a date of birth in another notation.\<close>

definition isoDobOutput :: PartialForm where
  "isoDobOutput =
     \<lparr> header = Some (noHeader\<lparr> recipientName := Some ''Test Patient'',
                                date := Some ''02/28/2024'', dob := Some ''1950-01-15'' \<rparr>),
       careCoordinationType = None,
       narrative = Some (noNarrative\<lparr> recipientAndVisitObservations :=
                                        Some ''Client doing well at home today.'' \<rparr>),
       signature = None \<rparr>"

text \<open>The word of the prompt in the date, and an empty date of birth.\<close>

definition echoedDateOutput :: PartialForm where
  "echoedDateOutput =
     \<lparr> header = Some (noHeader\<lparr> recipientName := Some ''Test Patient'',
                                date := Some ''STRING'', dob := Some [] \<rparr>),
       careCoordinationType = None,
       narrative = Some (noNarrative\<lparr> recipientAndVisitObservations :=
                                        Some ''Client doing well at home today.'' \<rparr>),
       signature = None \<rparr>"

text \<open>Placeholders in a narrative field and in a signature field.\<close>

definition placeholderElsewhereOutput :: PartialForm where
  "placeholderElsewhereOutput =
     \<lparr> header = Some (noHeader\<lparr> recipientName := Some ''Test Patient'' \<rparr>),
       careCoordinationType = None,
       narrative = Some (noNarrative\<lparr> recipientAndVisitObservations :=
                                        Some ''Client doing well at home today.'',
                                      reviewOfServices := Some ''string'' \<rparr>),
       signature = Some (noSignature\<lparr> signature_text := Some ''String'' \<rparr>) \<rparr>"

text \<open>A date whose day is 00.\<close>

definition dayZeroOutput :: PartialForm where
  "dayZeroOutput =
     \<lparr> header = Some (noHeader\<lparr> recipientName := Some ''Test Patient'',
                                date := Some ''01/00/2024'' \<rparr>),
       careCoordinationType = None,
       narrative = Some (noNarrative\<lparr> recipientAndVisitObservations :=
                                        Some ''Client doing well at home today.'' \<rparr>),
       signature = None \<rparr>"

text \<open>A placeholder in a header field.\<close>

definition placeholderHeaderOutput :: PartialForm where
  "placeholderHeaderOutput =
     \<lparr> header = Some (noHeader\<lparr> recipientName := Some ''Test Patient'',
                                location := Some ''a String here'' \<rparr>),
       careCoordinationType = None,
       narrative = Some (noNarrative\<lparr> additionalNotes := Some ''string'' \<rparr>),
       signature = Some (noSignature\<lparr> careCoordinatorName := Some ''string'' \<rparr>) \<rparr>"

subsection \<open>The leaves of the header and of the narrative\<close>

definition headerLeaves :: "((string option FormHeader \<Rightarrow> string option) \<times> string) list" where
  "headerLeaves =
     [ (recipientName, ''header.recipientName''), (date, ''header.date''),
       (time, ''header.time''), (recipientIdentifier, ''header.recipientIdentifier''),
       (dob, ''header.dob''), (location, ''header.location'') ]"

definition narrativeLeaves :: "(string option NarrativeSections \<Rightarrow> string option) list" where
  "narrativeLeaves =
     [ recipientAndVisitObservations, healthEmotionalStatus, reviewOfServices,
       progressTowardGoals, additionalNotes, followUpTasks ]"

section \<open>JSON.parse\<close>

text \<open>
  The extractors take \<open>JSON.parse\<close> as a parameter: a function from the text to the
  value, \<open>None\<close> when it throws a SyntaxError. What is proved about them holds for every
  such function. For running them on a concrete response, \<open>JSON_parse\<close> below is a parser
  of the JSON grammar on texts whose strings stay below code unit 256. An escape above
  \<open>\u00FF\<close> denotes a code unit that the model's strings do not have: on a text with
  such an escape \<open>JSON_parse\<close> gives \<open>None\<close> where \<open>JSON.parse\<close> returns a value. It is
  applied here to texts without escapes.
\<close>

definition isJsonSpace :: "char \<Rightarrow> bool" where
  "isJsonSpace c \<longleftrightarrow> c \<in> set [CHR 0x20, CHR 0x09, CHR 0x0A, CHR 0x0D]"

definition skipWs :: "string \<Rightarrow> string" where
  "skipWs s = dropWhile isJsonSpace s"

definition controlChars :: string where
  "controlChars =
     [CHR 0x00, CHR 0x01, CHR 0x02, CHR 0x03, CHR 0x04, CHR 0x05, CHR 0x06, CHR 0x07,
      CHR 0x08, CHR 0x09, CHR 0x0A, CHR 0x0B, CHR 0x0C, CHR 0x0D, CHR 0x0E, CHR 0x0F,
      CHR 0x10, CHR 0x11, CHR 0x12, CHR 0x13, CHR 0x14, CHR 0x15, CHR 0x16, CHR 0x17,
      CHR 0x18, CHR 0x19, CHR 0x1A, CHR 0x1B, CHR 0x1C, CHR 0x1D, CHR 0x1E, CHR 0x1F]"

text \<open>The escapes of one character: the letter after the backslash and what it denotes.\<close>

definition simpleEscapes :: "(char \<times> char) list" where
  "simpleEscapes =
     [ (CHR 0x22, CHR 0x22), (CHR 0x5C, CHR 0x5C), (CHR ''/'', CHR ''/''),
       (CHR ''b'', CHR 0x08), (CHR ''f'', CHR 0x0C), (CHR ''n'', CHR 0x0A),
       (CHR ''r'', CHR 0x0D), (CHR ''t'', CHR 0x09) ]"

definition hexValue :: "char \<Rightarrow> nat option" where
  "hexValue c =
     map_of (zip ''0123456789abcdef'' [0, 1, 2, 3, 4, 5, 6, 7, 8, 9, 10, 11, 12, 13, 14, 15] @
             zip ''ABCDEF'' [10, 11, 12, 13, 14, 15]) c"

text \<open>\<open>\uXXXX\<close> for a code unit below 256; a larger one has no value in the model.\<close>

definition unicodeEscape :: "string \<Rightarrow> char option" where
  "unicodeEscape ds =
     (case map hexValue ds of
        [Some a, Some b, Some c, Some d] \<Rightarrow>
          if a = 0 \<and> b = 0 then Some (char_of (16 * c + d)) else None
      | _ \<Rightarrow> None)"

text \<open>The rest of a string after its opening quote: the text and what follows the closing quote.\<close>

fun parseStringBody :: "string \<Rightarrow> string \<Rightarrow> (string \<times> string) option" where
  "parseStringBody acc [] = None"
| "parseStringBody acc [c] = (if c = CHR 0x22 then Some (rev acc, []) else None)"
| "parseStringBody acc (c # e # cs) =
     (if c = CHR 0x22 then Some (rev acc, e # cs)
      else if c = CHR 0x5C then
        (case map_of simpleEscapes e of
           Some x \<Rightarrow> parseStringBody (x # acc) cs
         | None \<Rightarrow>
             if e = CHR ''u'' then
               (case unicodeEscape (take 4 cs) of
                  Some x \<Rightarrow> parseStringBody (x # acc) (drop 4 cs)
                | None \<Rightarrow> None)
             else None)
      else if c \<in> set controlChars then None
      else parseStringBody (c # acc) (e # cs))"

text \<open>\<open>-?(0|[1-9][0-9]*)(\.[0-9]+)?([eE][+-]?[0-9]+)?\<close>\<close>

definition numberRx :: regex where
  "numberRx =
     seqs [opt (Lit ''-''),
           alts [Lit ''0'', Seq (Chr (oneOf ''123456789'')) (Rep isDigit 0 None)],
           opt (Seq (Lit ''.'') (Rep isDigit 1 None)),
           opt (seqs [Chr (oneOf ''eE''), opt (Chr (oneOf ''+-'')), Rep isDigit 1 None])]"

text \<open>
  Value, elements of an array after its bracket, members of an object after its brace.
  The first argument bounds the number of nested calls; twice the length of the text is
  enough, since every second call has consumed a character.
\<close>

fun parseValue :: "nat \<Rightarrow> string \<Rightarrow> (json \<times> string) option"
  and parseElements :: "nat \<Rightarrow> string \<Rightarrow> (json list \<times> string) option"
  and parseMembers :: "nat \<Rightarrow> string \<Rightarrow> ((string \<times> json) list \<times> string) option"
where
  "parseValue 0 s = None"
| "parseValue (Suc n) s =
     (case skipWs s of
        [] \<Rightarrow> None
      | c # cs \<Rightarrow>
          if c = CHR ''{'' then
            (case skipWs cs of
               [] \<Rightarrow> None
             | d # ds \<Rightarrow>
                 if d = CHR ''}'' then Some (JObj [], ds)
                 else (case parseMembers n cs of
                         None \<Rightarrow> None
                       | Some (ms, r) \<Rightarrow> Some (JObj ms, r)))
          else if c = CHR ''['' then
            (case skipWs cs of
               [] \<Rightarrow> None
             | d # ds \<Rightarrow>
                 if d = CHR '']'' then Some (JArr [], ds)
                 else (case parseElements n cs of
                         None \<Rightarrow> None
                       | Some (vs, r) \<Rightarrow> Some (JArr vs, r)))
          else if c = CHR 0x22 then
            (case parseStringBody [] cs of
               None \<Rightarrow> None
             | Some (str, r) \<Rightarrow> Some (JStr str, r))
          else if startsWith (c # cs) ''true'' then Some (JBool True, drop 4 (c # cs))
          else if startsWith (c # cs) ''false'' then Some (JBool False, drop 5 (c # cs))
          else if startsWith (c # cs) ''null'' then Some (JNull, drop 4 (c # cs))
          else (case matchesAt numberRx ([], c # cs, None) of
                  [] \<Rightarrow> None
                | (b, r, g) # _ \<Rightarrow> Some (JNum (rev b), r)))"
| "parseElements 0 s = None"
| "parseElements (Suc n) s =
     (case parseValue n s of
        None \<Rightarrow> None
      | Some (v, r) \<Rightarrow>
          (case skipWs r of
             [] \<Rightarrow> None
           | d # ds \<Rightarrow>
               if d = CHR '','' then
                 (case parseElements n ds of
                    None \<Rightarrow> None
                  | Some (vs, r') \<Rightarrow> Some (v # vs, r'))
               else if d = CHR '']'' then Some ([v], ds)
               else None))"
| "parseMembers 0 s = None"
| "parseMembers (Suc n) s =
     (case skipWs s of
        [] \<Rightarrow> None
      | q # cs \<Rightarrow>
          if q \<noteq> CHR 0x22 then None
          else (case parseStringBody [] cs of
                  None \<Rightarrow> None
                | Some (k, r) \<Rightarrow>
                    (case skipWs r of
                       [] \<Rightarrow> None
                     | colon # r1 \<Rightarrow>
                         if colon \<noteq> CHR '':'' then None
                         else (case parseValue n r1 of
                                 None \<Rightarrow> None
                               | Some (v, r2) \<Rightarrow>
                                   (case skipWs r2 of
                                      [] \<Rightarrow> None
                                    | d # ds \<Rightarrow>
                                        if d = CHR '','' then
                                          (case parseMembers n ds of
                                             None \<Rightarrow> None
                                           | Some (ms, r') \<Rightarrow> Some ((k, v) # ms, r'))
                                        else if d = CHR ''}'' then Some ([(k, v)], ds)
                                        else None)))))"

definition JSON_parse :: "string \<Rightarrow> json option" where
  "JSON_parse s =
     (case parseValue (2 * length s + 2) s of
        None \<Rightarrow> None
      | Some (v, r) \<Rightarrow> if skipWs r = [] then Some v else None)"

section \<open>LLM extractors (parser.ts, ollama.ts, llmCategorizer.ts)\<close>

definition backticks :: string where
  "backticks = [CHR 0x60, CHR 0x60, CHR 0x60]"

definition isNewline :: "char \<Rightarrow> bool" where
  "isNewline c \<longleftrightarrow> c = CHR 0x0A"

text \<open>\<open>/```json\n?([\s\S]*?)\n?```/\<close>, the pattern of parseWithLLM and parseWithVisionLLM.\<close>

definition jsonFenceRx :: regex where
  "jsonFenceRx =
     seqs [Lit (backticks @ ''json''), Rep isNewline 0 (Some 1), Group (RepLazy anyChar 0 None),
           Rep isNewline 0 (Some 1), Lit backticks]"

text \<open>\<open>/```(?:json)?\n?([\s\S]*?)\n?```/\<close> and \<open>/\{[\s\S]*\}/\<close>, the patterns of categorizeText.\<close>

definition codeBlockRx :: regex where
  "codeBlockRx =
     seqs [Lit backticks, opt (Lit ''json''), Rep isNewline 0 (Some 1),
           Group (RepLazy anyChar 0 None), Rep isNewline 0 (Some 1), Lit backticks]"

definition braceSpanRx :: regex where
  "braceSpanRx = seqs [Lit ''{'', Rep anyChar 0 None, Lit ''}'']"

text \<open>
  The \<open>try\<close>/\<open>catch\<close> of parseWithLLM and of parseWithVisionLLM, which differ in the
  message only: the direct parse; if it throws, the \<open>```json\<close> block, whose parse error is
  not caught; if there is no such block, the error with the message.
\<close>

definition parseLLMResponse :: "(string \<Rightarrow> json option) \<Rightarrow> string \<Rightarrow> string \<Rightarrow> error + json" where
  "parseLLMResponse jsonParse message llmResponse =
     (case jsonParse llmResponse of
        Some parsed \<Rightarrow> Inr parsed
      | None \<Rightarrow>
          (case match llmResponse jsonFenceRx of
             Some m \<Rightarrow>
               (case group1 m of
                  None \<Rightarrow> Inl SyntaxError
                | Some body \<Rightarrow>
                    (case jsonParse body of
                       Some parsed \<Rightarrow> Inr parsed
                     | None \<Rightarrow> Inl SyntaxError))
           | None \<Rightarrow> Inl (Error message)))"

text \<open>The parsing at the end of categorizeText, on the trimmed response.\<close>

definition parseCategorizerOutput :: "(string \<Rightarrow> json option) \<Rightarrow> string \<Rightarrow> error + json" where
  "parseCategorizerOutput jsonParse rawOutput =
     (case jsonParse rawOutput of
        Some parsed \<Rightarrow> Inr parsed
      | None \<Rightarrow>
          (case match rawOutput codeBlockRx of
             Some codeBlockMatch \<Rightarrow>
               (case group1 codeBlockMatch of
                  None \<Rightarrow> Inl (Error ''Could not parse JSON from code block'')
                | Some body \<Rightarrow>
                    (case jsonParse (trim body) of
                       Some parsed \<Rightarrow> Inr parsed
                     | None \<Rightarrow> Inl (Error ''Could not parse JSON from code block'')))
           | None \<Rightarrow>
               (case match rawOutput braceSpanRx of
                  Some jsonMatch \<Rightarrow>
                    (case jsonParse (matched jsonMatch) of
                       Some parsed \<Rightarrow> Inr parsed
                     | None \<Rightarrow> Inl (Error ''Could not parse JSON from matched brackets''))
                | None \<Rightarrow> Inl (Error ''No JSON object found in LLM output''))))"

text \<open>
  The three tiers that the specification describes, each on its own: the value that the
  tier yields on a response, if it yields one.
\<close>

definition tierDirect :: "(string \<Rightarrow> json option) \<Rightarrow> string \<Rightarrow> json option" where
  "tierDirect jsonParse response = jsonParse response"

definition tierFencedBlock :: "(string \<Rightarrow> json option) \<Rightarrow> string \<Rightarrow> json option" where
  "tierFencedBlock jsonParse response =
     (case match response codeBlockRx of
        None \<Rightarrow> None
      | Some m \<Rightarrow> (case group1 m of None \<Rightarrow> None | Some body \<Rightarrow> jsonParse body))"

definition tierBraceSpan :: "(string \<Rightarrow> json option) \<Rightarrow> string \<Rightarrow> json option" where
  "tierBraceSpan jsonParse response =
     (case match response braceSpanRx of
        None \<Rightarrow> None
      | Some m \<Rightarrow> jsonParse (matched m))"

subsection \<open>The process environment and the local model runtime\<close>

text \<open>The two environment variables that the pipeline reads; \<open>None\<close> is an unset variable.\<close>

record Env =
  DISABLE_LLM :: "string option"
  OLLAMA_MODEL :: "string option"

text \<open>\<open>process.env.OLLAMA_MODEL || 'qwen2.5:0.5b'\<close>\<close>

definition DEFAULT_MODEL :: "Env \<Rightarrow> string" where
  "DEFAULT_MODEL env =
     (case OLLAMA_MODEL env of
        None \<Rightarrow> ''qwen2.5:0.5b''
      | Some m \<Rightarrow> if truthy m then m else ''qwen2.5:0.5b'')"

definition isMultimodalModel :: "Env \<Rightarrow> bool" where
  "isMultimodalModel env =
     list_ex (\<lambda>m. includes_str (toLowerCase (DEFAULT_MODEL env)) m)
       [''llava'', ''bakllava'', ''moondream'', ''cogvlm'', ''deepseek-vl'']"

text \<open>
  The request that \<open>generateFormWithLLM\<close> sends: with the image (\<open>generateWithVision\<close>,
  image path and OCR text) or with the text alone (\<open>generateWithText\<close>).
\<close>

datatype llmCall = GenerateWithVision string string | GenerateWithText string

definition generateFormWithLLM :: "Env \<Rightarrow> string \<Rightarrow> string option \<Rightarrow> llmCall" where
  "generateFormWithLLM env text imagePath =
     (case imagePath of
        None \<Rightarrow> GenerateWithText text
      | Some p \<Rightarrow>
          if (truthy p \<and> isMultimodalModel env) \<and> truthy p then GenerateWithVision p text
          else GenerateWithText text)"

text \<open>
  What the runtime answers during one extraction request. \<open>tagsOk\<close>: the probe of
  \<open>/api/tags\<close> got an ok response within its 2 seconds. \<open>generate\<close>: the response text of a
  generate request, or the error thrown (a timeout after 60 or 120 seconds, a status
  that is not ok). \<open>categorizeText\<close>: the outcome of step 1 of the categorizer, at its
  declared type.
\<close>

record World =
  tagsOk :: bool
  generate :: "llmCall \<Rightarrow> error + string"
  categorizeText :: "string \<Rightarrow> error + PartialForm"

text \<open>The module variable \<open>llmFailed\<close> of ollama.ts, the only state between requests.\<close>

record OllamaModule =
  llmFailed :: bool

text \<open>What a request does that can be observed, in order.\<close>

datatype event =
    FetchTags
  | VisionLLM llmCall
  | Categorizer string
  | TextLLM llmCall
  | RuleBased
  | MarkLLMFailed

definition checkOllamaHealth :: "Env \<Rightarrow> World \<Rightarrow> OllamaModule \<Rightarrow> bool \<times> event list" where
  "checkOllamaHealth env world st =
     (if llmFailed st \<or> DISABLE_LLM env = Some ''true'' then (False, [])
      else (tagsOk world, [FetchTags]))"

definition markLLMFailed :: "OllamaModule \<Rightarrow> OllamaModule" where
  "markLLMFailed st = st\<lparr> llmFailed := True \<rparr>"

subsection \<open>The three LLM strategies\<close>

text \<open>
  Validation and scoring, the common end of parseWithLLM and parseWithVisionLLM. The
  error of a failed validation has the strategy's prefix and the ZodError's message.
\<close>

definition validated ::
  "string \<Rightarrow> ExtractionMethod \<Rightarrow> real \<Rightarrow> json \<Rightarrow> error + ParseResult" where
  "validated message method ocrConf parsed =
     (case safeValidateForm parsed of
        Inl zodError \<Rightarrow> Inl (ErrorWithIssues message zodError)
      | Inr d \<Rightarrow>
          Inr \<lparr> form = d, confidences = generateConfidenceScores d ocrConf method,
                extractionMethod = method, ollamaAvailable = True, validationIssues = None \<rparr>)"

definition parseWithLLM ::
  "(string \<Rightarrow> json option) \<Rightarrow> Env \<Rightarrow> World \<Rightarrow> string \<Rightarrow> real \<Rightarrow> error + ParseResult" where
  "parseWithLLM jsonParse env world text ocrConf =
     (case generate world (generateFormWithLLM env text None) of
        Inl e \<Rightarrow> Inl e
      | Inr llmResponse \<Rightarrow>
          (case parseLLMResponse jsonParse ''Invalid JSON from LLM'' llmResponse of
             Inl e \<Rightarrow> Inl e
           | Inr parsed \<Rightarrow>
               validated ''LLM output validation failed: '' LlmStructured ocrConf parsed))"

definition parseWithVisionLLM ::
  "(string \<Rightarrow> json option) \<Rightarrow> Env \<Rightarrow> World \<Rightarrow> string \<Rightarrow> string \<Rightarrow> real
     \<Rightarrow> error + ParseResult" where
  "parseWithVisionLLM jsonParse env world imagePath ocrText ocrConf =
     (case generate world (generateFormWithLLM env ocrText (Some imagePath)) of
        Inl e \<Rightarrow> Inl e
      | Inr llmResponse \<Rightarrow>
          (case parseLLMResponse jsonParse ''Invalid JSON from vision LLM'' llmResponse of
             Inl e \<Rightarrow> Inl e
           | Inr parsed \<Rightarrow>
               validated ''Vision LLM output validation failed: '' VisionLlm ocrConf parsed))"

definition parseWithLLMCategorizer :: "World \<Rightarrow> string \<Rightarrow> real \<Rightarrow> error + ParseResult" where
  "parseWithLLMCategorizer world text ocrConf =
     (case categorizeText world text of
        Inl e \<Rightarrow> Inl e
      | Inr categorizedData \<Rightarrow>
          (let categorized = validateAndMerge categorizedData in
           case safeValidateForm (form_to_json (categorized_form categorized)) of
             Inl zodError \<Rightarrow>
               Inl (ErrorWithIssues ''Categorized form validation failed: '' zodError)
           | Inr d \<Rightarrow>
               Inr \<lparr> form = d,
                     confidences = generateConfidenceScores d ocrConf LlmCategorized,
                     extractionMethod = LlmCategorized, ollamaAvailable = True,
                     validationIssues =
                       (if length (validationNotes categorized) > 0
                        then Some (validationNotes categorized) else None) \<rparr>))"

section \<open>Pipeline orchestrator (parser.ts, parseFormFromText)\<close>

text \<open>
  The four blocks of parseFormFromText, last first: each takes the module state and the
  events so far and returns the outcome of the request, the state and the events. A
  block whose strategy throws hands over to the next block, as the empty or marking
  \<open>catch\<close> does. The call of the rule-based extractor stands outside every \<open>try\<close>, so the
  outcome of the request is the result or what that call throws.
\<close>

definition afterLLMError :: "error \<Rightarrow> OllamaModule \<Rightarrow> OllamaModule \<times> event list" where
  "afterLLMError e st =
     (if e = TimeoutError then (markLLMFailed st, [MarkLLMFailed]) else (st, []))"

definition ruleBasedFallback ::
  "string \<Rightarrow> real \<Rightarrow> bool \<Rightarrow> OllamaModule \<Rightarrow> event list
     \<Rightarrow> (error + ParseResult) \<times> OllamaModule \<times> event list" where
  "ruleBasedFallback text ocrConf available st events =
     (parseWithRules text ocrConf available, st, events @ [RuleBased])"

definition priority3 ::
  "(string \<Rightarrow> json option) \<Rightarrow> Env \<Rightarrow> World \<Rightarrow> string \<Rightarrow> real \<Rightarrow> bool \<Rightarrow> OllamaModule
     \<Rightarrow> event list \<Rightarrow> (error + ParseResult) \<times> OllamaModule \<times> event list" where
  "priority3 jsonParse env world text ocrConf available st events =
     (if available then
        (case parseWithLLM jsonParse env world text ocrConf of
           Inr result \<Rightarrow>
             (Inr result, st, events @ [TextLLM (generateFormWithLLM env text None)])
         | Inl e \<Rightarrow>
             (let (st', marked) = afterLLMError e st in
              ruleBasedFallback text ocrConf available st'
                (events @ [TextLLM (generateFormWithLLM env text None)] @ marked)))
      else ruleBasedFallback text ocrConf available st events)"

definition priority2 ::
  "(string \<Rightarrow> json option) \<Rightarrow> Env \<Rightarrow> World \<Rightarrow> string \<Rightarrow> real \<Rightarrow> bool \<Rightarrow> OllamaModule
     \<Rightarrow> event list \<Rightarrow> (error + ParseResult) \<times> OllamaModule \<times> event list" where
  "priority2 jsonParse env world text ocrConf available st events =
     (if available \<and> ocrConf < 80 then
        (case parseWithLLMCategorizer world text ocrConf of
           Inr result \<Rightarrow> (Inr result, st, events @ [Categorizer text])
         | Inl e \<Rightarrow>
             (let (st', marked) = afterLLMError e st in
              priority3 jsonParse env world text ocrConf available st'
                (events @ [Categorizer text] @ marked)))
      else priority3 jsonParse env world text ocrConf available st events)"

definition priority1 ::
  "(string \<Rightarrow> json option) \<Rightarrow> Env \<Rightarrow> World \<Rightarrow> string \<Rightarrow> real \<Rightarrow> string option \<Rightarrow> bool
     \<Rightarrow> bool \<Rightarrow> OllamaModule \<Rightarrow> event list
     \<Rightarrow> (error + ParseResult) \<times> OllamaModule \<times> event list" where
  "priority1 jsonParse env world text ocrConf imagePath available useVision st events =
     (case imagePath of
        None \<Rightarrow> priority2 jsonParse env world text ocrConf available st events
      | Some p \<Rightarrow>
          if available \<and> useVision \<and> truthy p \<and> ocrConf < 50 then
            (case parseWithVisionLLM jsonParse env world p text ocrConf of
               Inr result \<Rightarrow>
                 (Inr result, st, events @ [VisionLLM (generateFormWithLLM env text (Some p))])
             | Inl e \<Rightarrow>
                 priority2 jsonParse env world text ocrConf available st
                   (events @ [VisionLLM (generateFormWithLLM env text (Some p))]))
          else priority2 jsonParse env world text ocrConf available st events)"

definition parseFormFromText ::
  "(string \<Rightarrow> json option) \<Rightarrow> Env \<Rightarrow> World \<Rightarrow> OllamaModule \<Rightarrow> string \<Rightarrow> real
     \<Rightarrow> string option \<Rightarrow> (error + ParseResult) \<times> OllamaModule \<times> event list" where
  "parseFormFromText jsonParse env world st text ocrConf imagePath =
     (let (available, events) = checkOllamaHealth env world st;
          useVision = (case imagePath of
                         None \<Rightarrow> False
                       | Some p \<Rightarrow> truthy p \<and> isMultimodalModel env)
      in priority1 jsonParse env world text ocrConf imagePath available useVision st events)"

subsection \<open>A process serving requests one after the other\<close>

record Request =
  req_world :: World
  req_text :: string
  req_confidence :: real
  req_image :: "string option"

text \<open>The outcomes and events of the requests in order, and the module state at the end.\<close>

fun serve ::
  "(string \<Rightarrow> json option) \<Rightarrow> Env \<Rightarrow> OllamaModule \<Rightarrow> Request list
     \<Rightarrow> ((error + ParseResult) \<times> event list) list \<times> OllamaModule" where
  "serve jsonParse env st [] = ([], st)"
| "serve jsonParse env st (r # rs) =
     (case parseFormFromText jsonParse env (req_world r) st (req_text r) (req_confidence r)
             (req_image r) of
        (result, st', events) \<Rightarrow>
          (case serve jsonParse env st' rs of
             (rest, st'') \<Rightarrow> ((result, events) # rest, st'')))"

text \<open>The events that reach the runtime, and those that are an LLM strategy.\<close>

fun isLLMAttempt :: "event \<Rightarrow> bool" where
  "isLLMAttempt (VisionLLM c) = True"
| "isLLMAttempt (Categorizer t) = True"
| "isLLMAttempt (TextLLM c) = True"
| "isLLMAttempt e = False"

fun isNetworkCall :: "event \<Rightarrow> bool" where
  "isNetworkCall FetchTags = True"
| "isNetworkCall e = isLLMAttempt e"

fun isVisionAttempt :: "event \<Rightarrow> bool" where
  "isVisionAttempt (VisionLLM c) = True"
| "isVisionAttempt e = False"

fun sendsImage :: "event \<Rightarrow> bool" where
  "sendsImage (VisionLLM (GenerateWithVision p t)) = True"
| "sendsImage (TextLLM (GenerateWithVision p t)) = True"
| "sendsImage e = False"

section \<open>Sample responses, worlds and requests\<close>

text \<open>The body of the first \<open>```json\<close> block of a response, if there is one.\<close>

definition jsonFenceBody :: "string \<Rightarrow> string option" where
  "jsonFenceBody response =
     (case match response jsonFenceRx of None \<Rightarrow> None | Some m \<Rightarrow> group1 m)"

text \<open>A form as a model may write it, with the keys it found.\<close>

definition sampleJson :: string where
  "sampleJson = ''{'' @ [CHR 0x22] @ ''header'' @ [CHR 0x22] @ '':{'' @ [CHR 0x22] @ ''recipientName'' @ [CHR 0x22] @ '':'' @ [CHR 0x22] @ ''Bob'' @ [CHR 0x22] @ ''},'' @ [CHR 0x22] @ ''careCoordinationType'' @ [CHR 0x22] @ '':{'' @ [CHR 0x22] @ ''sih'' @ [CHR 0x22] @ '':true},'' @ [CHR 0x22] @ ''narrative'' @ [CHR 0x22] @ '':{},'' @ [CHR 0x22] @ ''signature'' @ [CHR 0x22] @ '':{}}''"

text \<open>The value that this text denotes, and the form that validation makes of it.\<close>

definition sampleValue :: json where
  "sampleValue =
     JObj [ (''header'', JObj [(''recipientName'', JStr ''Bob'')]),
            (''careCoordinationType'', JObj [(''sih'', JBool True)]),
            (''narrative'', JObj []),
            (''signature'', JObj []) ]"

text \<open>The same text after a sentence, in a \<open>```json\<close> block, and in a block without tag.\<close>

definition chattyResponse :: string where
  "chattyResponse = ''Sure: '' @ sampleJson"

definition fencedResponse :: string where
  "fencedResponse = backticks @ ''json'' @ [CHR 0x0A] @ sampleJson @ [CHR 0x0A] @ backticks"

definition bareFenceResponse :: string where
  "bareFenceResponse = backticks @ [CHR 0x0A] @ sampleJson @ [CHR 0x0A] @ backticks"

definition sampleForm :: MonthlyCareCoordinationForm where
  "sampleForm =
     createEmptyForm\<lparr> header := (header createEmptyForm)\<lparr> recipientName := ''Bob'' \<rparr>,
                      careCoordinationType := \<lparr> sih = True, hcbw = False \<rparr> \<rparr>"

definition defaultEnv :: Env where
  "defaultEnv = \<lparr> DISABLE_LLM = None, OLLAMA_MODEL = None \<rparr>"

definition llavaEnv :: Env where
  "llavaEnv = \<lparr> DISABLE_LLM = None, OLLAMA_MODEL = Some ''llava:7b'' \<rparr>"

text \<open>A runtime that answers the probe and then lets every request time out.\<close>

definition stalledWorld :: World where
  "stalledWorld =
     \<lparr> tagsOk = True, generate = (\<lambda>c. Inl TimeoutError), categorizeText = (\<lambda>t. Inl TimeoutError) \<rparr>"

text \<open>A runtime that answers everything: the form in a \<open>```json\<close> block, the bad date.\<close>

definition healthyWorld :: World where
  "healthyWorld =
     \<lparr> tagsOk = True, generate = (\<lambda>c. Inr fencedResponse),
       categorizeText = (\<lambda>t. Inr badDateOutput) \<rparr>"

definition mediocreRequest :: Request where
  "mediocreRequest =
     \<lparr> req_world = stalledWorld, req_text = ''Name: Bob Smith'', req_confidence = 60,
       req_image = None \<rparr>"

definition laterRequest :: Request where
  "laterRequest =
     \<lparr> req_world = healthyWorld, req_text = ''SIH checked'', req_confidence = 40,
       req_image = Some ''scan.png'' \<rparr>"

section \<open>Properties of the confidence scorer\<close>

text \<open>
  C2. For every form, base confidence and method, the scorer's list carries exactly the
  17 paths of the schema's field table, once each, in the table's order: 6 header
  fields, the 2 checkboxes, 6 narrative fields, 3 signature fields.
\<close>

theorem confidence_enumerates_schema_paths:
  "map field (generateConfidenceScores f c m) = map fst FORM_FIELDS
   \<and> length (generateConfidenceScores f c m) = 17
   \<and> distinct (map field (generateConfidenceScores f c m))
   \<and> map snd FORM_FIELDS =
       replicate 6 TextField @ replicate 2 Checkbox @ replicate 6 Textarea @ replicate 3 TextField"
  by (simp add: generateConfidenceScores_def FORM_FIELDS_def addField_def Let_def
      numeral_eq_Suc)

lemma getValueAtPath_header:
  "getValueAtPath (form_to_json f) ''header.recipientName'' = Some (JStr (recipientName (header f)))"
  "getValueAtPath (form_to_json f) ''header.date'' = Some (JStr (date (header f)))"
  "getValueAtPath (form_to_json f) ''header.time'' = Some (JStr (time (header f)))"
  "getValueAtPath (form_to_json f) ''header.recipientIdentifier'' =
     Some (JStr (recipientIdentifier (header f)))"
  "getValueAtPath (form_to_json f) ''header.dob'' = Some (JStr (dob (header f)))"
  "getValueAtPath (form_to_json f) ''header.location'' = Some (JStr (location (header f)))"
  by (simp_all add: getValueAtPath_def getProperty_def form_to_json_def jsonGet_def)

lemma getValueAtPath_checkboxes:
  "getValueAtPath (form_to_json f) ''careCoordinationType.sih'' =
     Some (JBool (sih (careCoordinationType f)))"
  "getValueAtPath (form_to_json f) ''careCoordinationType.hcbw'' =
     Some (JBool (hcbw (careCoordinationType f)))"
  by (simp_all add: getValueAtPath_def getProperty_def form_to_json_def jsonGet_def)

lemma getValueAtPath_narrative:
  "getValueAtPath (form_to_json f) ''narrative.recipientAndVisitObservations'' =
     Some (JStr (recipientAndVisitObservations (narrative f)))"
  "getValueAtPath (form_to_json f) ''narrative.healthEmotionalStatus'' =
     Some (JStr (healthEmotionalStatus (narrative f)))"
  "getValueAtPath (form_to_json f) ''narrative.reviewOfServices'' =
     Some (JStr (reviewOfServices (narrative f)))"
  "getValueAtPath (form_to_json f) ''narrative.progressTowardGoals'' =
     Some (JStr (progressTowardGoals (narrative f)))"
  "getValueAtPath (form_to_json f) ''narrative.additionalNotes'' =
     Some (JStr (additionalNotes (narrative f)))"
  "getValueAtPath (form_to_json f) ''narrative.followUpTasks'' =
     Some (JStr (followUpTasks (narrative f)))"
  by (simp_all add: getValueAtPath_def getProperty_def form_to_json_def jsonGet_def)

lemma getValueAtPath_signature:
  "getValueAtPath (form_to_json f) ''signature.careCoordinatorName'' =
     Some (JStr (careCoordinatorName (signature f)))"
  "getValueAtPath (form_to_json f) ''signature.signature'' =
     Some (JStr (signature_text (signature f)))"
  "getValueAtPath (form_to_json f) ''signature.dateSigned'' = Some (JStr (dateSigned (signature f)))"
  by (simp_all add: getValueAtPath_def getProperty_def form_to_json_def jsonGet_def)

text \<open>A path that goes on into a string reads the string's own properties.\<close>

lemma getValueAtPath_into_string:
  "getValueAtPath (form_to_json sampleForm) ''header.recipientName.length'' = Some (JNum ''3'')"
  "getValueAtPath (form_to_json sampleForm) ''header.recipientName.1'' = Some (JStr ''o'')"
  "getValueAtPath (form_to_json sampleForm) ''header.recipientName.3'' = None"
  by code_simp+

lemmas getValueAtPath_form =
  getValueAtPath_header getValueAtPath_checkboxes getValueAtPath_narrative
  getValueAtPath_signature

lemma fieldLevel_unpopulated: "fieldLevel base m False = Low"
  by (simp add: fieldLevel_def)

lemma confidence_addField:
  "confidence (addField c m p v) = fieldLevel (baseConfidence c) m v"
  "field (addField c m p v) = p"
  by (simp_all add: addField_def)

text \<open>
  C4. An entry whose path leads to the empty string has tier low, whatever the method and
  the base confidence. The two checkbox entries get the tier of a populated field,
  whatever the booleans are: the floor does not apply to them.
\<close>

theorem empty_field_floor:
  "\<forall>e \<in> set (generateConfidenceScores f c m).
     (getValueAtPath (form_to_json f) (field e) = Some (JStr []) \<longrightarrow> confidence e = Low)
     \<and> (field e \<in> {''careCoordinationType.sih'', ''careCoordinationType.hcbw''} \<longrightarrow>
          confidence e = fieldLevel (baseConfidence c) m True)"
  by (simp add: generateConfidenceScores_def Let_def confidence_addField getValueAtPath_form
      truthy_def fieldLevel_unpopulated)

theorem empty_field_floor_witness:
  "generateConfidenceScores createEmptyForm 95 LlmStructured ! 1
     \<in> set (generateConfidenceScores createEmptyForm 95 LlmStructured)
   \<and> field (generateConfidenceScores createEmptyForm 95 LlmStructured ! 1) = ''header.date''
   \<and> getValueAtPath (form_to_json createEmptyForm) ''header.date'' = Some (JStr [])
   \<and> confidence (generateConfidenceScores createEmptyForm 95 LlmStructured ! 1) = Low
   \<and> generateConfidenceScores createEmptyForm 95 LlmStructured ! 6
     \<in> set (generateConfidenceScores createEmptyForm 95 LlmStructured)
   \<and> field (generateConfidenceScores createEmptyForm 95 LlmStructured ! 6) =
       ''careCoordinationType.sih''
   \<and> getValueAtPath (form_to_json createEmptyForm) ''careCoordinationType.sih'' =
       Some (JBool False)
   \<and> confidence (generateConfidenceScores createEmptyForm 95 LlmStructured ! 6) = High"
  using empty_field_floor [of createEmptyForm 95 LlmStructured]
  by (simp add: generateConfidenceScores_def Let_def confidence_addField getValueAtPath_form
      createEmptyForm_def fieldLevel_def baseConfidence_def)

lemma fieldLevel_ocr_le_categorized:
  "tierRank (fieldLevel base OcrOnly v) \<le> tierRank (fieldLevel base LlmCategorized v)"
  by (cases base; cases v) (simp_all add: fieldLevel_def)

text \<open>
  C5. For the same base confidence the tier under \<open>ocr-only\<close> is never above the tier
  under \<open>llm-categorized\<close>: for a populated field, and entry by entry for every field of
  any form.
\<close>

theorem ocr_only_never_above_llm_categorized:
  "tierRank (fieldLevel (baseConfidence c) OcrOnly True)
     \<le> tierRank (fieldLevel (baseConfidence c) LlmCategorized True)
   \<and> list_all2 (\<lambda>a b. field a = field b \<and> tierRank (confidence a) \<le> tierRank (confidence b))
        (generateConfidenceScores f c OcrOnly) (generateConfidenceScores f c LlmCategorized)"
  by (simp add: generateConfidenceScores_def Let_def confidence_addField
      fieldLevel_ocr_le_categorized)

section \<open>Properties of the matcher\<close>

text \<open>A pattern without a group leaves the capture as it was; a group sets it.\<close>

lemma matchesAt_keeps_capture:
  "noGroup x \<Longrightarrow> st' \<in> set (matchesAt x st) \<Longrightarrow> snd (snd st') = snd (snd st)"
proof (induction x arbitrary: st st')
  case (Seq x y)
  from Seq.prems obtain mid where
    mid: "mid \<in> set (matchesAt x st)" "st' \<in> set (matchesAt y mid)"
    by auto
  from Seq.prems have "noGroup x" "noGroup y" by simp_all
  with mid Seq.IH show ?case by metis
next
  case (Alt x y)
  from Alt.prems have "st' \<in> set (matchesAt x st) \<or> st' \<in> set (matchesAt y st)"
    by simp
  moreover from Alt.prems have "noGroup x" "noGroup y" by simp_all
  ultimately show ?case using Alt.IH by blast
next
  case (Chr p)
  then show ?case by (cases st) (auto split: list.splits if_splits)
qed (cases st; auto simp: advance_def Let_def split: if_splits)+

lemma matchesAt_Group_captures:
  "st' \<in> set (matchesAt (Group x) st) \<Longrightarrow> snd (snd st') \<noteq> None"
  by (cases st) auto

text \<open>So the capture is set after every match of a pattern that always captures.\<close>

lemma matchesAt_alwaysCaptures:
  "alwaysCaptures x \<Longrightarrow> st' \<in> set (matchesAt x st) \<Longrightarrow> snd (snd st') \<noteq> None"
proof (induction x arbitrary: st st')
  case (Seq x y)
  from Seq.prems(2) obtain mid where
    mid: "mid \<in> set (matchesAt x st)" "st' \<in> set (matchesAt y mid)"
    by auto
  show ?case
  proof (cases "alwaysCaptures y")
    case True
    then show ?thesis using mid(2) by (rule Seq.IH(2))
  next
    case False
    with Seq.prems(1) have x: "alwaysCaptures x" and y: "noGroup y" by simp_all
    from x mid(1) have "snd (snd mid) \<noteq> None" by (rule Seq.IH(1))
    moreover from y mid(2) have "snd (snd st') = snd (snd mid)"
      by (rule matchesAt_keeps_capture)
    ultimately show ?thesis by simp
  qed
next
  case (Alt x y)
  from Alt.prems have "alwaysCaptures x" "alwaysCaptures y"
    and "st' \<in> set (matchesAt x st) \<or> st' \<in> set (matchesAt y st)"
    by simp_all
  then show ?case using Alt.IH by blast
next
  case (Group x)
  from Group.prems(2) show ?case by (rule matchesAt_Group_captures)
qed simp_all

lemma group1_found: "group1 (found b st) = snd (snd st)"
  by (cases st) (simp add: found_def)

lemma searchFrom_captures:
  assumes "\<And>st st'. st' \<in> set (matchesAt rx st) \<Longrightarrow> snd (snd st') \<noteq> None"
  shows "searchFrom rx b r = Some m \<Longrightarrow> group1 m \<noteq> None"
proof (induction r arbitrary: b)
  case Nil
  then obtain st rest where "matchesAt rx (b, [], None) = st # rest" "m = found b st"
    by (auto split: list.splits)
  then show ?case
    using assms [of st "(b, [], None)"] by (simp add: group1_found)
next
  case (Cons c cs)
  show ?case
  proof (cases "matchesAt rx (b, c # cs, None)")
    case Nil
    with Cons show ?thesis by simp
  next
    case (Cons st rest)
    with Cons.prems have "m = found b st" by simp
    with Cons show ?thesis
      using assms [of st "(b, c # cs, None)"] by (simp add: group1_found)
  qed
qed

lemma match_alwaysCaptures:
  assumes "alwaysCaptures rx" and "match s rx = Some m"
  shows "group1 m \<noteq> None"
proof -
  have "searchFrom rx [] s = Some m \<Longrightarrow> group1 m \<noteq> None"
    by (rule searchFrom_captures) (rule matchesAt_alwaysCaptures [OF assms(1)])
  with assms(2) show ?thesis by (simp add: match_def)
qed

section \<open>Properties of the rule-based extractor\<close>

lemma validateForm_form_to_json: "validateForm (form_to_json f) = Inr f"
  by (simp add: validateForm_def MonthlyCareCoordinationFormSchema_def FormHeaderSchema_def
      CareCoordinationTypeSchema_def NarrativeSectionsSchema_def SignatureSchema_def
      zStringDefault_def zBooleanDefault_def form_to_json_def jsonGet_def)

subsection \<open>No statement of the loop throws\<close>

text \<open>
  Each of the six header patterns has its group on every path, so \<open>match[1]\<close> is a string
  whenever there is a match and \<open>match[1].trim()\<close> does not throw.
\<close>

lemma header_patterns_capture:
  "alwaysCaptures recipientNameRx"
  "alwaysCaptures dateRx"
  "alwaysCaptures timeRx"
  "alwaysCaptures dobRx"
  "alwaysCaptures locationRx"
  "alwaysCaptures identifierRx"
  by (simp_all add: recipientNameRx_def dateRx_def timeRx_def dobRx_def locationRx_def
      identifierRx_def labelSep_def)

lemma capture_returns:
  assumes "alwaysCaptures rx"
  shows "\<exists>v. capture rx line = Inr v"
proof (cases "match line rx")
  case None
  then show ?thesis by (simp add: capture_def)
next
  case (Some m)
  with assms have "group1 m \<noteq> None" by (rule match_alwaysCaptures)
  with Some show ?thesis by (auto simp: capture_def)
qed

text \<open>Each statement returns, and none of them touches the narrative.\<close>

lemma lineRecipientName_returns:
  "\<exists>f'. lineRecipientName l f = Inr f' \<and> narrative f' = narrative f"
  using capture_returns [OF header_patterns_capture(1), of l]
  by (auto simp: lineRecipientName_def andThen_def)

lemma lineDate_returns: "\<exists>f'. lineDate l f = Inr f' \<and> narrative f' = narrative f"
  using capture_returns [OF header_patterns_capture(2), of l]
  by (auto simp: lineDate_def andThen_def)

lemma lineTime_returns: "\<exists>f'. lineTime l f = Inr f' \<and> narrative f' = narrative f"
  using capture_returns [OF header_patterns_capture(3), of l]
  by (auto simp: lineTime_def andThen_def)

lemma lineDob_returns: "\<exists>f'. lineDob l f = Inr f' \<and> narrative f' = narrative f"
  using capture_returns [OF header_patterns_capture(4), of l]
  by (auto simp: lineDob_def andThen_def)

lemma lineLocation_returns: "\<exists>f'. lineLocation l f = Inr f' \<and> narrative f' = narrative f"
  using capture_returns [OF header_patterns_capture(5), of l]
  by (auto simp: lineLocation_def andThen_def)

lemma lineIdentifier_returns:
  "\<exists>f'. lineIdentifier l f = Inr f' \<and> narrative f' = narrative f"
  using capture_returns [OF header_patterns_capture(6), of l]
  by (auto simp: lineIdentifier_def andThen_def)

lemma narrative_checkboxes:
  "narrative (lineSih l f) = narrative f"
  "narrative (lineHcbw l f) = narrative f"
  by (simp_all add: lineSih_def lineHcbw_def)

lemma processLine_returns: "\<exists>f'. processLine f l = Inr f' \<and> narrative f' = narrative f"
proof -
  obtain f1 where s1: "lineRecipientName l f = Inr f1" and n1: "narrative f1 = narrative f"
    using lineRecipientName_returns by blast
  obtain f2 where s2: "lineDate l f1 = Inr f2" and n2: "narrative f2 = narrative f1"
    using lineDate_returns by blast
  obtain f3 where s3: "lineTime l f2 = Inr f3" and n3: "narrative f3 = narrative f2"
    using lineTime_returns by blast
  obtain f4 where s4: "lineDob l f3 = Inr f4" and n4: "narrative f4 = narrative f3"
    using lineDob_returns by blast
  obtain f5 where s5: "lineLocation l f4 = Inr f5" and n5: "narrative f5 = narrative f4"
    using lineLocation_returns by blast
  obtain f6 where s6: "lineIdentifier l f5 = Inr f6" and n6: "narrative f6 = narrative f5"
    using lineIdentifier_returns by blast
  have "processLine f l = Inr (lineHcbw l (lineSih l f6))"
    by (simp add: processLine_def andThen_def s1 s2 s3 s4 s5 s6)
  moreover have "narrative (lineHcbw l (lineSih l f6)) = narrative f"
    by (simp add: narrative_checkboxes n1 n2 n3 n4 n5 n6)
  ultimately show ?thesis by blast
qed

lemma processLines_returns: "\<exists>f'. processLines f ls = Inr f' \<and> narrative f' = narrative f"
proof (induction ls arbitrary: f)
  case Nil
  show ?case by simp
next
  case (Cons l ls)
  obtain f1 where 1: "processLine f l = Inr f1" "narrative f1 = narrative f"
    using processLine_returns by blast
  obtain f2 where 2: "processLines f1 ls = Inr f2" "narrative f2 = narrative f1"
    using Cons.IH by blast
  from 1 2 show ?case by (simp add: andThen_def)
qed

subsection \<open>The result\<close>

lemma sectionContent_long:
  "sectionContent t lt p = Some c \<Longrightarrow> 10 < length c \<and> length c \<le> 1000"
  by (auto simp: sectionContent_def Let_def substring_def split: option.splits if_splits)

lemma firstContent_long:
  "firstContent t lt ps = Some c \<Longrightarrow> 10 < length c \<and> length c \<le> 1000"
  by (induction ps) (auto split: option.splits dest: sectionContent_long)

lemma extracted_additionalNotes_nonempty:
  assumes "additionalNotes (extractNarrativeSections text) = Some e"
  shows "e \<noteq> []"
proof -
  from assms
  have "firstContent text (toLowerCase text) [''additional notes'', ''notes''] = Some e"
    by (simp add: extractNarrativeSections_def Let_def del: firstContent.simps)
  then have "10 < length e"
    by (simp only: firstContent_long)
  then show ?thesis by auto
qed

lemma indexOfAux_here: "indexOfAux pat (pat @ ys) i = Some i"
proof (cases "pat @ ys")
  case Nil
  then show ?thesis by simp
next
  case (Cons c cs)
  have "startsWith (pat @ ys) pat"
    by (simp add: startsWith_def)
  with Cons show ?thesis by simp
qed

lemma indexOfAux_found: "indexOfAux pat (xs @ pat @ ys) i \<noteq> None"
  by (induction xs arbitrary: i) (auto simp: indexOfAux_here)

lemma includes_str_infix: "includes_str (xs @ pat @ ys) pat"
  using indexOfAux_found [of pat xs ys 0] by (simp add: includes_str_def indexOf_def)

lemma reviewNote_nonempty: "reviewNote \<noteq> []"
  by (simp add: reviewNote_def)

text \<open>The extractor returns a result, and these are its method, flag, scores and notes.\<close>

lemma parseWithRules_returns:
  "\<exists>r. parseWithRules text c available = Inr r
       \<and> extractionMethod r = OcrOnly
       \<and> ollamaAvailable r = available
       \<and> confidences r = generateConfidenceScores (form r) c OcrOnly
       \<and> additionalNotes (narrative (form r)) =
           (if available then [] else ocrOnlyNote @ [CHR 0x0A]) @ reviewNote @
           (case additionalNotes (extractNarrativeSections text) of
              None \<Rightarrow> []
            | Some e \<Rightarrow> [CHR 0x0A, CHR 0x0A] @ e)"
proof -
  obtain f where
    f: "processLines createEmptyForm (filter truthy (map trim (splitOn (CHR 0x0A) text))) = Inr f"
    and n: "narrative f = narrative createEmptyForm"
    using processLines_returns by blast
  from n have nf: "additionalNotes (narrative f) = []"
    by (simp add: createEmptyForm_def)
  show ?thesis
  proof (cases "additionalNotes (extractNarrativeSections text)")
    case None
    then show ?thesis
      by (simp add: parseWithRules_def Let_def andThen_def f nf spreadNarrative_def orKeep_def
          truthy_def)
  next
    case (Some e)
    then have "e \<noteq> []" by (rule extracted_additionalNotes_nonempty)
    with Some show ?thesis
      by (simp add: parseWithRules_def Let_def andThen_def f nf spreadNarrative_def orKeep_def
          truthy_def)
  qed
qed

text \<open>The empty text, and a text with a name, a date and a checked box.\<close>

lemma parseWithRules_empty_text:
  "map_sum id form (parseWithRules [] c available) =
     Inr (createEmptyForm\<lparr>narrative := (narrative createEmptyForm)
            \<lparr>additionalNotes :=
               (if available then [] else ocrOnlyNote @ [CHR 0x0A]) @ reviewNote\<rparr>\<rparr>)"
  by (simp add: parseWithRules_def Let_def andThen_def trim_def truthy_def isWhiteSpace_def
      extractNarrativeSections_def sectionContent_def indexOf_def toLowerCase_def
      spreadNarrative_def orKeep_def createEmptyForm_def)

lemma parseWithRules_sample_text:
  "map_sum id (\<lambda>r. (recipientName (header (form r)), date (header (form r)),
                     sih (careCoordinationType (form r)), hcbw (careCoordinationType (form r))))
     (parseWithRules
        (''Name: Bob Smith'' @ [CHR 0x0A] @ ''Date: 3/4/2024'' @ [CHR 0x0A] @ ''SIH [x]'') 60 True)
   = Inr (''Bob Smith'', ''3/4/2024'', True, False)"
  by code_simp

text \<open>
  C1. For every text, confidence and availability flag the rule-based extractor returns
  a result: no statement of it throws, the reads of \<open>match[1]\<close> included. The form of the
  result passes \<open>validateForm\<close>, which returns that form; the result is tagged \<open>ocr-only\<close>
  and carries the flag. Nothing is asked of the text or of the confidence.
\<close>

theorem parseWithRules_form_validates:
  "\<exists>r. parseWithRules text c available = Inr r
       \<and> validateForm (form_to_json (form r)) = Inr (form r)
       \<and> extractionMethod r = OcrOnly
       \<and> ollamaAvailable r = available"
  using parseWithRules_returns [of "text" c available]
  by (auto simp: validateForm_form_to_json)

text \<open>
  C10. The rule-based extractor returns a result whose additional notes are the note
  lines (the OCR-only line when the LLM is unavailable, then the review line), followed
  after an empty line by the extracted additional-notes section if there is one. They
  are never empty, they contain the review line, and their confidence entry is computed
  as for a populated field.
\<close>

theorem parseWithRules_additionalNotes:
  "\<exists>r. parseWithRules text c available = Inr r
       \<and> additionalNotes (narrative (form r)) =
           (if available then [] else ocrOnlyNote @ [CHR 0x0A]) @ reviewNote @
           (case additionalNotes (extractNarrativeSections text) of
              None \<Rightarrow> []
            | Some e \<Rightarrow> [CHR 0x0A, CHR 0x0A] @ e)
       \<and> additionalNotes (narrative (form r)) \<noteq> []
       \<and> includes_str (additionalNotes (narrative (form r))) reviewNote
       \<and> confidences r ! 12 = addField c OcrOnly ''narrative.additionalNotes'' True"
proof -
  from parseWithRules_returns [of "text" c available] obtain r where
    r: "parseWithRules text c available = Inr r"
    and sc: "confidences r = generateConfidenceScores (form r) c OcrOnly"
    and eq: "additionalNotes (narrative (form r)) =
           (if available then [] else ocrOnlyNote @ [CHR 0x0A]) @ reviewNote @
           (case additionalNotes (extractNarrativeSections text) of
              None \<Rightarrow> []
            | Some e \<Rightarrow> [CHR 0x0A, CHR 0x0A] @ e)"
    by blast
  let ?n = "additionalNotes (narrative (form r))"
  have ne: "?n \<noteq> []"
    by (simp add: eq reviewNote_nonempty)
  have inc: "includes_str ?n reviewNote"
    by (simp only: eq includes_str_infix)
  from sc have "confidences r ! 12 = addField c OcrOnly ''narrative.additionalNotes'' (truthy ?n)"
    by (simp add: generateConfidenceScores_def Let_def)
  with ne have "confidences r ! 12 = addField c OcrOnly ''narrative.additionalNotes'' True"
    by (simp add: truthy_def)
  with r eq ne inc show ?thesis by blast
qed

section \<open>Properties of the categorizer's validation phase\<close>

subsection \<open>What the date pattern accepts\<close>

text \<open>
  The pattern is anchored at both ends and every part of it has a fixed width, so it
  accepts exactly the texts of ten characters whose parts pass.
\<close>

lemma matchesAt_dateRegex_not_at_start: "b \<noteq> [] \<Longrightarrow> matchesAt dateRegex (b, r, g) = []"
  by (simp add: dateRegex_def)

lemma searchFrom_dateRegex_not_at_start: "b \<noteq> [] \<Longrightarrow> searchFrom dateRegex b r = None"
  by (induction r arbitrary: b) (simp_all add: matchesAt_dateRegex_not_at_start)

lemma test_dateRegex: "test dateRegex s \<longleftrightarrow> matchesAt dateRegex ([], s, None) \<noteq> []"
  by (cases s)
     (auto simp: test_def match_def searchFrom_dateRegex_not_at_start split: list.splits)

lemma month_fixed:
  "matchesAt monthRx (b, r, g) =
     (if 2 \<le> length r
         \<and> (case twoDigits (take 2 r) of None \<Rightarrow> False | Some m \<Rightarrow> 1 \<le> m \<and> m \<le> 12)
      then [(rev (take 2 r) @ b, drop 2 r, g)] else [])"
proof (cases r)
  case Nil
  then show ?thesis by (simp add: monthRx_def)
next
  case (Cons m1 r1)
  show ?thesis
  proof (cases r1)
    case Nil
    with Cons show ?thesis by (simp add: monthRx_def oneOf_def advance_def)
  next
    case (Cons m2 r2)
    with \<open>r = m1 # r1\<close> show ?thesis
      by (auto simp: monthRx_def advance_def oneOf_def twoDigits_def digitValue_def)
  qed
qed

lemma day_fixed:
  "matchesAt dayRx (b, r, g) =
     (if 2 \<le> length r \<and> (case twoDigits (take 2 r) of None \<Rightarrow> False | Some d \<Rightarrow> d \<le> 31)
      then [(rev (take 2 r) @ b, drop 2 r, g)] else [])"
proof (cases r)
  case Nil
  then show ?thesis by (simp add: dayRx_def oneOf_def)
next
  case (Cons d1 r1)
  show ?thesis
  proof (cases r1)
    case Nil
    with Cons show ?thesis by (simp add: dayRx_def oneOf_def advance_def)
  next
    case (Cons d2 r2)
    with \<open>r = d1 # r1\<close> show ?thesis
      by (auto simp: dayRx_def advance_def oneOf_def twoDigits_def digitValue_def)
  qed
qed

lemma slash_fixed:
  "matchesAt (Lit ''/'') (b, r, g) =
     (if 1 \<le> length r \<and> take 1 r = ''/'' then [(rev (take 1 r) @ b, drop 1 r, g)] else [])"
  by (cases r) (auto simp: advance_def)

lemma runLength_four_le: "runLength isDigit (Some 4) r \<le> 4"
  by (simp add: runLength_def)

lemma runLength_four:
  "runLength isDigit (Some 4) r = 4 \<longleftrightarrow> 4 \<le> length r \<and> list_all isDigit (take 4 r)"
proof -
  have "4 \<le> length (takeWhile isDigit r) \<longleftrightarrow> 4 \<le> length r \<and> list_all isDigit (take 4 r)"
  proof
    assume a: "4 \<le> length (takeWhile isDigit r)"
    have "length (takeWhile isDigit r) \<le> length r"
      by (rule length_takeWhile_le)
    with a have l: "4 \<le> length r" by simp
    have "take 4 r = take 4 (takeWhile isDigit r @ dropWhile isDigit r)" by simp
    also have "\<dots> = take 4 (takeWhile isDigit r)"
      using a by (simp del: takeWhile_dropWhile_id)
    finally have "set (take 4 r) \<subseteq> set (takeWhile isDigit r)"
      by (simp add: set_take_subset)
    then have "list_all isDigit (take 4 r)"
      by (auto simp: list_all_iff dest: set_takeWhileD)
    with l show "4 \<le> length r \<and> list_all isDigit (take 4 r)" by simp
  next
    assume a: "4 \<le> length r \<and> list_all isDigit (take 4 r)"
    then have "takeWhile isDigit (take 4 r @ drop 4 r) =
                 take 4 r @ takeWhile isDigit (drop 4 r)"
      by (intro takeWhile_append2) (simp add: list_all_iff)
    then have "length (takeWhile isDigit r) = 4 + length (takeWhile isDigit (drop 4 r))"
      using a by simp
    then show "4 \<le> length (takeWhile isDigit r)" by simp
  qed
  then show ?thesis by (auto simp: runLength_def)
qed

lemma year_fixed:
  "matchesAt (Rep isDigit 4 (Some 4)) (b, r, g) =
     (if 4 \<le> length r \<and> list_all isDigit (take 4 r)
      then [(rev (take 4 r) @ b, drop 4 r, g)] else [])"
proof (cases "runLength isDigit (Some 4) r = 4")
  case True
  then show ?thesis using runLength_four [of r] by (simp add: advance_def)
next
  case False
  with runLength_four_le [of r] have "runLength isDigit (Some 4) r < 4" by simp
  with False show ?thesis using runLength_four [of r] by simp
qed

lemma eol_fixed:
  "matchesAt Eol (b, r, g) = (if length r = 0 \<and> True then [(rev r @ b, [], g)] else [])"
  by simp

text \<open>A part of fixed width followed by a pattern that must reach the end of the text.\<close>

lemma seq_fixed_to_end:
  assumes x: "\<And>b r g. matchesAt x (b, r, g) =
                (if n \<le> length r \<and> P (take n r)
                 then [(rev (take n r) @ b, drop n r, g)] else [])"
      and y: "\<And>b r g. matchesAt y (b, r, g) =
                (if length r = m \<and> Q r then [(rev r @ b, [], g)] else [])"
  shows "matchesAt (Seq x y) (b, r, g) =
           (if length r = n + m \<and> P (take n r) \<and> Q (drop n r)
            then [(rev r @ b, [], g)] else [])"
proof -
  have "rev (drop n r) @ rev (take n r) = rev r"
    by (metis append_take_drop_id rev_append)
  then show ?thesis
    by (auto simp: x y)
qed

lemmas date_tail1 =
  seq_fixed_to_end [where P = "list_all isDigit" and n = 4, OF year_fixed eol_fixed]

lemmas date_tail2 =
  seq_fixed_to_end [where P = "\<lambda>s. s = ''/''" and n = 1, OF slash_fixed date_tail1]

lemmas date_tail3 =
  seq_fixed_to_end
    [where P = "\<lambda>s. case twoDigits s of None \<Rightarrow> False | Some d \<Rightarrow> d \<le> 31" and n = 2,
     OF day_fixed date_tail2]

lemmas date_tail4 =
  seq_fixed_to_end [where P = "\<lambda>s. s = ''/''" and n = 1, OF slash_fixed date_tail3]

lemmas date_tail5 =
  seq_fixed_to_end
    [where P = "\<lambda>s. case twoDigits s of None \<Rightarrow> False | Some m \<Rightarrow> 1 \<le> m \<and> m \<le> 12"
       and n = 2,
     OF month_fixed date_tail4]

text \<open>
  The pattern accepts exactly the texts of the shape \<open>MM/DD/YYYY\<close> with a month from 01
  to 12 and a day up to 31: the day 00 passes.
\<close>

lemma test_dateRegex_iff:
  "test dateRegex s \<longleftrightarrow>
     (case dateParts s of None \<Rightarrow> False | Some (m, d) \<Rightarrow> 1 \<le> m \<and> m \<le> 12 \<and> d \<le> 31)"
proof -
  have "matchesAt dateRegex ([], s, None) =
          matchesAt (Seq monthRx (Seq (Lit ''/'') (Seq dayRx (Seq (Lit ''/'')
            (Seq (Rep isDigit 4 (Some 4)) Eol))))) ([], s, None)"
    by (simp add: dateRegex_def del: matchesAt.simps(2,7,11))
  then show ?thesis
    unfolding test_dateRegex date_tail5
    by (auto simp: dateParts_def slice_def eval_nat_numeral split: option.splits)
qed

lemma strictDate_accepted: "strictDate s \<Longrightarrow> test dateRegex s"
  by (auto simp: strictDate_def test_dateRegex_iff split: option.splits)

text \<open>What the pattern accepts beyond the strict form are the dates with the day 00.\<close>

lemma accepted_iff_strict_or_day_zero: "test dateRegex s \<longleftrightarrow> strictDate s \<or> dayZeroDate s"
  by (auto simp: strictDate_def dayZeroDate_def test_dateRegex_iff split: option.splits)

lemma day_zero_not_strict: "dayZeroDate s \<Longrightarrow> \<not> strictDate s"
  by (auto simp: strictDate_def dayZeroDate_def split: option.splits)

subsection \<open>The structure of the issue list\<close>

lemma checkLiteralString_member:
  "i \<in> set (snd (checkLiteralString v f)) \<Longrightarrow>
   issue_field i = f \<and> (\<exists>s. v = Some s \<and> includes_str (toLowerCase s) ''string'')"
  by (auto simp: checkLiteralString_def placeholderIssue_def split: option.splits if_splits)

lemma checkLiteralString_keeps:
  "\<not> includes_str (toLowerCase s) ''string'' \<Longrightarrow> checkLiteralString (Some s) f = (Some s, [])"
  by (simp add: checkLiteralString_def)

lemma checkLiteralString_clears:
  "includes_str (toLowerCase s) ''string'' \<Longrightarrow>
   checkLiteralString (Some s) f = (Some [], [placeholderIssue f s])"
  by (simp add: checkLiteralString_def)

lemma cleanHeader_fields:
  "recipientName (fst (cleanHeader h)) =
     fst (checkLiteralString (recipientName h) ''header.recipientName'')"
  "date (fst (cleanHeader h)) = fst (checkLiteralString (date h) ''header.date'')"
  "time (fst (cleanHeader h)) = fst (checkLiteralString (time h) ''header.time'')"
  "recipientIdentifier (fst (cleanHeader h)) =
     fst (checkLiteralString (recipientIdentifier h) ''header.recipientIdentifier'')"
  "dob (fst (cleanHeader h)) = fst (checkLiteralString (dob h) ''header.dob'')"
  "location (fst (cleanHeader h)) = fst (checkLiteralString (location h) ''header.location'')"
  by (simp_all add: cleanHeader_def split_beta)

lemma cleanHeader_issues:
  "snd (cleanHeader h) =
     snd (checkLiteralString (recipientName h) ''header.recipientName'') @
     snd (checkLiteralString (date h) ''header.date'') @
     snd (checkLiteralString (time h) ''header.time'') @
     snd (checkLiteralString (recipientIdentifier h) ''header.recipientIdentifier'') @
     snd (checkLiteralString (dob h) ''header.dob'') @
     snd (checkLiteralString (location h) ''header.location'')"
  by (simp add: cleanHeader_def split_beta)

lemma snd_cleanHeader_field:
  "i \<in> set (snd (cleanHeader h)) \<Longrightarrow>
   (issue_field i = ''header.recipientName''
      \<and> (\<exists>s. recipientName h = Some s \<and> includes_str (toLowerCase s) ''string''))
   \<or> (issue_field i = ''header.date''
      \<and> (\<exists>s. date h = Some s \<and> includes_str (toLowerCase s) ''string''))
   \<or> (issue_field i = ''header.time''
      \<and> (\<exists>s. time h = Some s \<and> includes_str (toLowerCase s) ''string''))
   \<or> (issue_field i = ''header.recipientIdentifier''
      \<and> (\<exists>s. recipientIdentifier h = Some s \<and> includes_str (toLowerCase s) ''string''))
   \<or> (issue_field i = ''header.dob''
      \<and> (\<exists>s. dob h = Some s \<and> includes_str (toLowerCase s) ''string''))
   \<or> (issue_field i = ''header.location''
      \<and> (\<exists>s. location h = Some s \<and> includes_str (toLowerCase s) ''string''))"
  unfolding cleanHeader_issues
  by (auto dest!: checkLiteralString_member)

lemma corrected_header:
  "header pf = Some h \<Longrightarrow>
   header (corrected (validateCategorizedData pf)) = Some (fst (cleanHeader h))"
  by (simp add: validateCategorizedData_def split_beta Let_def)

lemma corrected_narrative:
  "narrative (corrected (validateCategorizedData pf)) = map_option cleanNarrative (narrative pf)"
  by (simp add: validateCategorizedData_def split_beta Let_def)

lemma corrected_signature:
  "signature (corrected (validateCategorizedData pf)) = signature pf"
  by (simp add: validateCategorizedData_def split_beta Let_def)

lemma issues_with_header:
  assumes "header pf = Some h"
  shows "\<exists>rest. issues (validateCategorizedData pf) =
           snd (cleanHeader h) @
           checkDate (date (fst (cleanHeader h))) ''header.date'' ''date'' @
           checkDate (dob (fst (cleanHeader h))) ''header.dob'' ''DOB'' @ rest
         \<and> (\<forall>i \<in> set rest. issue_field i \<in>
               {''careCoordinationType'', ''header.recipientName'', ''narrative''})"
  using assms
  by (auto simp: validateCategorizedData_def split_beta Let_def optField_def)

lemma issues_without_header:
  assumes "header pf = None"
  shows "\<forall>i \<in> set (issues (validateCategorizedData pf)).
           issue_field i \<in> {''careCoordinationType'', ''header.recipientName'', ''narrative''}"
  using assms
  by (auto simp: validateCategorizedData_def split_beta Let_def optField_def checkDate_def)

lemma checkDate_field: "i \<in> set (checkDate v f l) \<Longrightarrow> issue_field i = f"
  by (auto simp: checkDate_def dateIssue_def split: option.splits if_splits)

lemma checkDate_empty: "checkDate (Some []) f l = []"
  by (simp add: checkDate_def)

lemma checkDate_strict: "strictDate v \<Longrightarrow> checkDate (Some v) f l = []"
  by (simp add: checkDate_def strictDate_accepted)

lemma checkDate_malformed:
  "v \<noteq> [] \<Longrightarrow> \<not> strictDate v \<Longrightarrow> \<not> dayZeroDate v \<Longrightarrow>
   checkDate (Some v) f l = [dateIssue f l v]"
  by (simp add: checkDate_def truthy_def accepted_iff_strict_or_day_zero)

lemma checkDate_day_zero: "dayZeroDate v \<Longrightarrow> checkDate (Some v) f l = []"
  by (simp add: checkDate_def accepted_iff_strict_or_day_zero)

text \<open>The issues of one field: those of the placeholder check, then those of the date check.\<close>

lemma issuesFor_append: "issuesFor g (xs @ ys) = issuesFor g xs @ issuesFor g ys"
  by (simp add: issuesFor_def)

lemma issuesFor_checkLiteralString:
  "issuesFor g (snd (checkLiteralString v f)) =
     (if f = g then snd (checkLiteralString v f) else [])"
  by (auto simp: issuesFor_def checkLiteralString_def placeholderIssue_def split: option.splits)

lemma issuesFor_checkDate:
  "issuesFor g (checkDate v f l) = (if f = g then checkDate v f l else [])"
  by (auto simp: issuesFor_def checkDate_def dateIssue_def split: option.splits)

lemma issuesFor_other:
  "\<forall>i \<in> set rest. issue_field i \<in> S \<Longrightarrow> g \<notin> S \<Longrightarrow> issuesFor g rest = []"
  by (auto simp: issuesFor_def filter_empty_conv)

lemma issuesFor_date:
  assumes "header pf = Some h"
  shows "issuesFor ''header.date'' (issues (validateCategorizedData pf)) =
           snd (checkLiteralString (date h) ''header.date'') @
           checkDate (fst (checkLiteralString (date h) ''header.date'')) ''header.date'' ''date''"
proof -
  from issues_with_header [OF assms] obtain rest where
    iss: "issues (validateCategorizedData pf) =
            snd (cleanHeader h) @
            checkDate (date (fst (cleanHeader h))) ''header.date'' ''date'' @
            checkDate (dob (fst (cleanHeader h))) ''header.dob'' ''DOB'' @ rest"
    and rest: "\<forall>i \<in> set rest. issue_field i \<in>
                 {''careCoordinationType'', ''header.recipientName'', ''narrative''}"
    by blast
  have r: "issuesFor ''header.date'' rest = []"
    using rest by (rule issuesFor_other) simp
  show ?thesis
    by (simp add: iss issuesFor_append cleanHeader_issues cleanHeader_fields
        issuesFor_checkLiteralString issuesFor_checkDate r)
qed

lemma issuesFor_dob:
  assumes "header pf = Some h"
  shows "issuesFor ''header.dob'' (issues (validateCategorizedData pf)) =
           snd (checkLiteralString (dob h) ''header.dob'') @
           checkDate (fst (checkLiteralString (dob h) ''header.dob'')) ''header.dob'' ''DOB''"
proof -
  from issues_with_header [OF assms] obtain rest where
    iss: "issues (validateCategorizedData pf) =
            snd (cleanHeader h) @
            checkDate (date (fst (cleanHeader h))) ''header.date'' ''date'' @
            checkDate (dob (fst (cleanHeader h))) ''header.dob'' ''DOB'' @ rest"
    and rest: "\<forall>i \<in> set rest. issue_field i \<in>
                 {''careCoordinationType'', ''header.recipientName'', ''narrative''}"
    by blast
  have r: "issuesFor ''header.dob'' rest = []"
    using rest by (rule issuesFor_other) simp
  show ?thesis
    by (simp add: iss issuesFor_append cleanHeader_issues cleanHeader_fields
        issuesFor_checkLiteralString issuesFor_checkDate r)
qed

lemma merged_dates:
  "date (header (mergeWithDefaults val)) = orEmpty (optField (header (corrected val)) date)"
  "dob (header (mergeWithDefaults val)) = orEmpty (optField (header (corrected val)) dob)"
  by (simp_all add: mergeWithDefaults_def Let_def)

lemma orEmpty_Some: "orEmpty (Some s) = s"
  by (simp add: orEmpty_def truthy_def)

lemma date_field_checked:
  assumes hdr: "header pf = Some h" and v: "date h = Some v"
  shows "(includes_str (toLowerCase v) ''string'' \<longrightarrow>
            issuesFor ''header.date'' (issues (validateCategorizedData pf)) =
              [placeholderIssue ''header.date'' v]
            \<and> optField (header (corrected (validateCategorizedData pf))) date = Some []
            \<and> date (header (mergeWithDefaults (validateCategorizedData pf))) = [])
       \<and> (\<not> includes_str (toLowerCase v) ''string'' \<longrightarrow>
            (v = [] \<or> strictDate v \<longrightarrow>
               issuesFor ''header.date'' (issues (validateCategorizedData pf)) = [])
            \<and> (v \<noteq> [] \<and> \<not> strictDate v \<and> \<not> dayZeroDate v \<longrightarrow>
               issuesFor ''header.date'' (issues (validateCategorizedData pf)) =
                 [dateIssue ''header.date'' ''date'' v])
            \<and> optField (header (corrected (validateCategorizedData pf))) date = Some v
            \<and> date (header (mergeWithDefaults (validateCategorizedData pf))) = v)"
proof (cases "includes_str (toLowerCase v) ''string''")
  case True
  then have c: "checkLiteralString (date h) ''header.date'' =
                  (Some [], [placeholderIssue ''header.date'' v])"
    by (simp add: v checkLiteralString_clears)
  have e: "optField (header (corrected (validateCategorizedData pf))) date = Some []"
    by (simp add: corrected_header [OF hdr] optField_def cleanHeader_fields c)
  from True e show ?thesis
    by (simp add: issuesFor_date [OF hdr] c checkDate_empty merged_dates orEmpty_Some)
next
  case False
  then have c: "checkLiteralString (date h) ''header.date'' = (Some v, [])"
    by (simp add: v checkLiteralString_keeps)
  have e: "optField (header (corrected (validateCategorizedData pf))) date = Some v"
    by (simp add: corrected_header [OF hdr] optField_def cleanHeader_fields c)
  from False e show ?thesis
    by (auto simp: issuesFor_date [OF hdr] c checkDate_empty checkDate_strict
        checkDate_malformed merged_dates orEmpty_Some)
qed

lemma dob_field_checked:
  assumes hdr: "header pf = Some h" and w: "dob h = Some w"
  shows "(includes_str (toLowerCase w) ''string'' \<longrightarrow>
            issuesFor ''header.dob'' (issues (validateCategorizedData pf)) =
              [placeholderIssue ''header.dob'' w]
            \<and> optField (header (corrected (validateCategorizedData pf))) dob = Some []
            \<and> dob (header (mergeWithDefaults (validateCategorizedData pf))) = [])
       \<and> (\<not> includes_str (toLowerCase w) ''string'' \<longrightarrow>
            (w = [] \<or> strictDate w \<longrightarrow>
               issuesFor ''header.dob'' (issues (validateCategorizedData pf)) = [])
            \<and> (w \<noteq> [] \<and> \<not> strictDate w \<and> \<not> dayZeroDate w \<longrightarrow>
               issuesFor ''header.dob'' (issues (validateCategorizedData pf)) =
                 [dateIssue ''header.dob'' ''DOB'' w])
            \<and> optField (header (corrected (validateCategorizedData pf))) dob = Some w
            \<and> dob (header (mergeWithDefaults (validateCategorizedData pf))) = w)"
proof (cases "includes_str (toLowerCase w) ''string''")
  case True
  then have c: "checkLiteralString (dob h) ''header.dob'' =
                  (Some [], [placeholderIssue ''header.dob'' w])"
    by (simp add: w checkLiteralString_clears)
  have e: "optField (header (corrected (validateCategorizedData pf))) dob = Some []"
    by (simp add: corrected_header [OF hdr] optField_def cleanHeader_fields c)
  from True e show ?thesis
    by (simp add: issuesFor_dob [OF hdr] c checkDate_empty merged_dates orEmpty_Some)
next
  case False
  then have c: "checkLiteralString (dob h) ''header.dob'' = (Some w, [])"
    by (simp add: w checkLiteralString_keeps)
  have e: "optField (header (corrected (validateCategorizedData pf))) dob = Some w"
    by (simp add: corrected_header [OF hdr] optField_def cleanHeader_fields c)
  from False e show ?thesis
    by (auto simp: issuesFor_dob [OF hdr] c checkDate_empty checkDate_strict
        checkDate_malformed merged_dates orEmpty_Some)
qed

text \<open>
  C6, as the code has it. Let the header carry a date, or a date of birth. If the value
  contains the placeholder word, the placeholder check comes first: the value is
  replaced by the empty string, and the one issue recorded for the field is the
  placeholder issue, not a date-format issue. If the value is free of the placeholder
  word, it reaches the corrected data and the merged form unchanged; no issue is
  recorded for the field when the value is empty or in strict \<open>MM/DD/YYYY\<close> form; and
  when it is not empty and not in strict form, the one issue recorded for the field is
  the issue that suggests \<open>Should be MM/DD/YYYY\<close>. The texts \<open>MM/00/YYYY\<close> with a month
  from 01 to 12 are left aside here.
\<close>

theorem date_format_check:
  assumes "header pf = Some h"
  shows "(date h = Some v \<longrightarrow>
            (includes_str (toLowerCase v) ''string'' \<longrightarrow>
               issuesFor ''header.date'' (issues (validateCategorizedData pf)) =
                 [placeholderIssue ''header.date'' v]
               \<and> optField (header (corrected (validateCategorizedData pf))) date = Some []
               \<and> date (header (mergeWithDefaults (validateCategorizedData pf))) = [])
          \<and> (\<not> includes_str (toLowerCase v) ''string'' \<longrightarrow>
               (v = [] \<or> strictDate v \<longrightarrow>
                  issuesFor ''header.date'' (issues (validateCategorizedData pf)) = [])
               \<and> (v \<noteq> [] \<and> \<not> strictDate v \<and> \<not> dayZeroDate v \<longrightarrow>
                  issuesFor ''header.date'' (issues (validateCategorizedData pf)) =
                    [dateIssue ''header.date'' ''date'' v])
               \<and> optField (header (corrected (validateCategorizedData pf))) date = Some v
               \<and> date (header (mergeWithDefaults (validateCategorizedData pf))) = v))
       \<and> (dob h = Some w \<longrightarrow>
            (includes_str (toLowerCase w) ''string'' \<longrightarrow>
               issuesFor ''header.dob'' (issues (validateCategorizedData pf)) =
                 [placeholderIssue ''header.dob'' w]
               \<and> optField (header (corrected (validateCategorizedData pf))) dob = Some []
               \<and> dob (header (mergeWithDefaults (validateCategorizedData pf))) = [])
          \<and> (\<not> includes_str (toLowerCase w) ''string'' \<longrightarrow>
               (w = [] \<or> strictDate w \<longrightarrow>
                  issuesFor ''header.dob'' (issues (validateCategorizedData pf)) = [])
               \<and> (w \<noteq> [] \<and> \<not> strictDate w \<and> \<not> dayZeroDate w \<longrightarrow>
                  issuesFor ''header.dob'' (issues (validateCategorizedData pf)) =
                    [dateIssue ''header.dob'' ''DOB'' w])
               \<and> optField (header (corrected (validateCategorizedData pf))) dob = Some w
               \<and> dob (header (mergeWithDefaults (validateCategorizedData pf))) = w))"
  using date_field_checked [OF assms, of v] dob_field_checked [OF assms, of w] by blast

lemmas eval_date =
  strictDate_def dayZeroDate_def dateParts_def slice_def twoDigits_def digitValue_def
  isDigit_def

lemma sample_placeholders:
  "\<not> includes_str (toLowerCase ''13/45/2024'') ''string''"
  "\<not> includes_str (toLowerCase ''01/15/1950'') ''string''"
  "\<not> includes_str (toLowerCase ''02/28/2024'') ''string''"
  "\<not> includes_str (toLowerCase ''1950-01-15'') ''string''"
  "\<not> includes_str (toLowerCase []) ''string''"
  "includes_str (toLowerCase ''a String'') ''string''"
  "includes_str (toLowerCase ''STRING'') ''string''"
  by code_simp+

lemma sample_dates:
  "\<not> strictDate ''13/45/2024''" "\<not> dayZeroDate ''13/45/2024''" "strictDate ''01/15/1950''"
  "strictDate ''02/28/2024''" "\<not> strictDate ''1950-01-15''" "\<not> dayZeroDate ''1950-01-15''"
  by (simp_all add: eval_date)

text \<open>
  Four outputs, so that each case of the theorem occurs for each of the two fields: a
  malformed, a well-formed, an empty value and one with the placeholder word.
\<close>

theorem date_format_check_witness:
  "header badDateOutput = Some (noHeader\<lparr> recipientName := Some ''Test Patient'',
                                date := Some ''13/45/2024'', dob := Some ''01/15/1950'' \<rparr>)
   \<and> \<not> includes_str (toLowerCase ''13/45/2024'') ''string''
   \<and> \<not> strictDate ''13/45/2024'' \<and> \<not> dayZeroDate ''13/45/2024''
   \<and> issuesFor ''header.date'' (issues (validateCategorizedData badDateOutput)) =
       [dateIssue ''header.date'' ''date'' ''13/45/2024'']
   \<and> date (header (mergeWithDefaults (validateCategorizedData badDateOutput))) = ''13/45/2024''
   \<and> \<not> includes_str (toLowerCase ''01/15/1950'') ''string''
   \<and> strictDate ''01/15/1950''
   \<and> issuesFor ''header.dob'' (issues (validateCategorizedData badDateOutput)) = []
   \<and> dob (header (mergeWithDefaults (validateCategorizedData badDateOutput))) = ''01/15/1950''
   \<and> header isoDobOutput = Some (noHeader\<lparr> recipientName := Some ''Test Patient'',
                                date := Some ''02/28/2024'', dob := Some ''1950-01-15'' \<rparr>)
   \<and> strictDate ''02/28/2024''
   \<and> issuesFor ''header.date'' (issues (validateCategorizedData isoDobOutput)) = []
   \<and> date (header (mergeWithDefaults (validateCategorizedData isoDobOutput))) = ''02/28/2024''
   \<and> \<not> strictDate ''1950-01-15'' \<and> \<not> dayZeroDate ''1950-01-15''
   \<and> issuesFor ''header.dob'' (issues (validateCategorizedData isoDobOutput)) =
       [dateIssue ''header.dob'' ''DOB'' ''1950-01-15'']
   \<and> dob (header (mergeWithDefaults (validateCategorizedData isoDobOutput))) = ''1950-01-15''
   \<and> header placeholderDobOutput = Some (noHeader\<lparr> recipientName := Some ''Test Patient'',
                                date := Some [], dob := Some ''a String'' \<rparr>)
   \<and> issuesFor ''header.date'' (issues (validateCategorizedData placeholderDobOutput)) = []
   \<and> includes_str (toLowerCase ''a String'') ''string''
   \<and> issuesFor ''header.dob'' (issues (validateCategorizedData placeholderDobOutput)) =
       [placeholderIssue ''header.dob'' ''a String'']
   \<and> optField (header (corrected (validateCategorizedData placeholderDobOutput))) dob = Some []
   \<and> dob (header (mergeWithDefaults (validateCategorizedData placeholderDobOutput))) = []
   \<and> header echoedDateOutput = Some (noHeader\<lparr> recipientName := Some ''Test Patient'',
                                date := Some ''STRING'', dob := Some [] \<rparr>)
   \<and> includes_str (toLowerCase ''STRING'') ''string''
   \<and> issuesFor ''header.date'' (issues (validateCategorizedData echoedDateOutput)) =
       [placeholderIssue ''header.date'' ''STRING'']
   \<and> optField (header (corrected (validateCategorizedData echoedDateOutput))) date = Some []
   \<and> date (header (mergeWithDefaults (validateCategorizedData echoedDateOutput))) = []
   \<and> issuesFor ''header.dob'' (issues (validateCategorizedData echoedDateOutput)) = []"
  using date_format_check [of badDateOutput
      "noHeader\<lparr> recipientName := Some ''Test Patient'', date := Some ''13/45/2024'', dob := Some ''01/15/1950'' \<rparr>"
      "''13/45/2024''" "''01/15/1950''"]
    date_format_check [of isoDobOutput
      "noHeader\<lparr> recipientName := Some ''Test Patient'', date := Some ''02/28/2024'', dob := Some ''1950-01-15'' \<rparr>"
      "''02/28/2024''" "''1950-01-15''"]
    date_format_check [of placeholderDobOutput
      "noHeader\<lparr> recipientName := Some ''Test Patient'', date := Some [], dob := Some ''a String'' \<rparr>"
      "[]" "''a String''"]
    date_format_check [of echoedDateOutput
      "noHeader\<lparr> recipientName := Some ''Test Patient'', date := Some ''STRING'', dob := Some [] \<rparr>"
      "''STRING''" "[]"]
  by (simp add: badDateOutput_def isoDobOutput_def placeholderDobOutput_def echoedDateOutput_def
      noHeader_def sample_placeholders sample_dates)


text \<open>
  The claim as stated fails on a date that carries the placeholder word: it is not empty
  and not a date, yet the only issue recorded is the placeholder issue, without the
  suggestion \<open>Should be MM/DD/YYYY\<close>, and the value is replaced by the empty string.
\<close>

theorem date_format_check_counterexample:
  "optField (header placeholderDateOutput) date = Some ''string''
   \<and> ''string'' \<noteq> [] \<and> \<not> strictDate ''string''
   \<and> map suggestion (issues (validateCategorizedData placeholderDateOutput)) =
       [Some ''Field not properly extracted from source text'']
   \<and> optField (header (corrected (validateCategorizedData placeholderDateOutput))) date = Some []"
  by code_simp

text \<open>
  The texts left aside: the day 00 passes the pattern, so a date \<open>MM/00/YYYY\<close> with a
  month from 01 to 12, which is not in strict form, raises no issue for its field.
\<close>

lemma day_zero_passes:
  assumes "header pf = Some h" and "date h = Some v" and "dayZeroDate v"
      and "\<not> includes_str (toLowerCase v) ''string''"
  shows "\<not> strictDate v \<and> issuesFor ''header.date'' (issues (validateCategorizedData pf)) = []"
  using assms
  by (simp add: issuesFor_date [OF assms(1)] checkLiteralString_keeps checkDate_day_zero
      day_zero_not_strict)

lemma day_zero_not_flagged:
  "optField (header dayZeroOutput) date = Some ''01/00/2024''
   \<and> \<not> strictDate ''01/00/2024''
   \<and> test dateRegex ''01/00/2024''
   \<and> issues (validateCategorizedData dayZeroOutput) = []"
  by code_simp

lemma header_leaf_cleared:
  assumes hdr: "header pf = Some h"
      and s: "sel h = Some s" "includes_str (toLowerCase s) ''string''"
      and leaf: "(sel, path) \<in> set headerLeaves"
  shows "optField (header (corrected (validateCategorizedData pf))) sel = Some []
         \<and> placeholderIssue path s \<in> set (issues (validateCategorizedData pf))"
proof -
  from issues_with_header [OF hdr] obtain rest where
    iss: "issues (validateCategorizedData pf) = snd (cleanHeader h) @ rest"
    by auto
  from leaf s show ?thesis
    unfolding headerLeaves_def iss
    by (auto simp: corrected_header [OF hdr] optField_def cleanHeader_fields cleanHeader_issues
        checkLiteralString_clears)
qed

lemma narrative_leaf_cleared:
  assumes n: "narrative pf = Some n"
      and s: "sel n = Some s" "includes_str (toLowerCase s) ''string''"
      and leaf: "sel \<in> set narrativeLeaves"
  shows "optField (narrative (corrected (validateCategorizedData pf))) sel = Some []"
  using leaf s
  by (auto simp: narrativeLeaves_def corrected_narrative n optField_def cleanNarrative_def
      clearPlaceholder_def)

lemma issue_fields:
  "i \<in> set (issues (validateCategorizedData pf)) \<Longrightarrow>
   issue_field i \<in> set (map snd headerLeaves) \<union> {''careCoordinationType'', ''narrative''}"
proof (cases "header pf")
  case None
  assume "i \<in> set (issues (validateCategorizedData pf))"
  with issues_without_header [OF None] show ?thesis
    by (auto simp: headerLeaves_def)
next
  case (Some h)
  assume i: "i \<in> set (issues (validateCategorizedData pf))"
  from issues_with_header [OF Some] obtain rest where
    iss: "issues (validateCategorizedData pf) =
            snd (cleanHeader h) @
            checkDate (date (fst (cleanHeader h))) ''header.date'' ''date'' @
            checkDate (dob (fst (cleanHeader h))) ''header.dob'' ''DOB'' @ rest"
    and rest: "\<forall>i \<in> set rest. issue_field i \<in>
                 {''careCoordinationType'', ''header.recipientName'', ''narrative''}"
    by blast
  from i have "i \<in> set (snd (cleanHeader h))
       \<or> i \<in> set (checkDate (date (fst (cleanHeader h))) ''header.date'' ''date'')
       \<or> i \<in> set (checkDate (dob (fst (cleanHeader h))) ''header.dob'' ''DOB'')
       \<or> i \<in> set rest"
    unfolding iss by auto
  then show ?thesis
    using rest by (auto simp: headerLeaves_def dest!: snd_cleanHeader_field checkDate_field)
qed

text \<open>
  C7, as the code has it. A header field that contains the placeholder word is cleared
  and an issue for its path is recorded. A narrative field that contains it is cleared
  too, but no issue names a narrative field: every issue is for a header path, for
  \<open>careCoordinationType\<close> or for \<open>narrative\<close> as a whole. The signature is not touched.
\<close>

theorem placeholder_cleanup:
  "(header pf = Some h \<longrightarrow>
      (\<forall>(sel, path) \<in> set headerLeaves. \<forall>s.
          sel h = Some s \<and> includes_str (toLowerCase s) ''string'' \<longrightarrow>
            optField (header (corrected (validateCategorizedData pf))) sel = Some []
            \<and> placeholderIssue path s \<in> set (issues (validateCategorizedData pf))))
   \<and> (narrative pf = Some n \<longrightarrow>
      (\<forall>sel \<in> set narrativeLeaves. \<forall>s.
          sel n = Some s \<and> includes_str (toLowerCase s) ''string'' \<longrightarrow>
            optField (narrative (corrected (validateCategorizedData pf))) sel = Some []))
   \<and> (\<forall>i \<in> set (issues (validateCategorizedData pf)).
        issue_field i \<in> set (map snd headerLeaves) \<union> {''careCoordinationType'', ''narrative''})
   \<and> signature (corrected (validateCategorizedData pf)) = signature pf"
  using header_leaf_cleared [of pf h] narrative_leaf_cleared [of pf n] issue_fields [of _ pf]
    corrected_signature [of pf]
  by (auto simp del: set_map)

lemma placeholder_words:
  "includes_str (toLowerCase ''a String here'') ''string''"
  "includes_str (toLowerCase ''string'') ''string''"
  "includes_str (toLowerCase ''String'') ''string''"
  by code_simp+

theorem placeholder_cleanup_witness:
  "header placeholderHeaderOutput =
     Some (noHeader\<lparr> recipientName := Some ''Test Patient'', location := Some ''a String here'' \<rparr>)
   \<and> (location, ''header.location'') \<in> set headerLeaves
   \<and> includes_str (toLowerCase ''a String here'') ''string''
   \<and> optField (header (corrected (validateCategorizedData placeholderHeaderOutput))) location = Some []
   \<and> placeholderIssue ''header.location'' ''a String here''
       \<in> set (issues (validateCategorizedData placeholderHeaderOutput))
   \<and> narrative placeholderHeaderOutput = Some (noNarrative\<lparr> additionalNotes := Some ''string'' \<rparr>)
   \<and> additionalNotes \<in> set narrativeLeaves
   \<and> optField (narrative (corrected (validateCategorizedData placeholderHeaderOutput))) additionalNotes
       = Some []"
proof -
  let ?h = "noHeader\<lparr> recipientName := Some ''Test Patient'', location := Some ''a String here'' \<rparr>"
  let ?n = "noNarrative\<lparr> additionalNotes := Some ''string'' \<rparr>"
  have h: "header placeholderHeaderOutput = Some ?h"
    and n: "narrative placeholderHeaderOutput = Some ?n"
    by (simp_all add: placeholderHeaderOutput_def)
  have leaf: "(location, ''header.location'') \<in> set headerLeaves"
    and nleaf: "additionalNotes \<in> set narrativeLeaves"
    by (simp_all add: headerLeaves_def narrativeLeaves_def)
  have l: "location ?h = Some ''a String here''" and a: "additionalNotes ?n = Some ''string''"
    by (simp_all add: noHeader_def noNarrative_def)
  from placeholder_cleanup [of placeholderHeaderOutput ?h ?n] h n leaf nleaf l a placeholder_words
  have "optField (header (corrected (validateCategorizedData placeholderHeaderOutput))) location = Some []
      \<and> placeholderIssue ''header.location'' ''a String here''
           \<in> set (issues (validateCategorizedData placeholderHeaderOutput))
      \<and> optField (narrative (corrected (validateCategorizedData placeholderHeaderOutput)))
           additionalNotes = Some []"
    by fast
  with h n leaf nleaf placeholder_words show ?thesis by simp
qed

text \<open>
  The claim as stated fails on placeholders outside the header: a narrative field is
  cleared without any issue, and a signature field keeps its placeholder and carries it
  into the merged form.
\<close>

theorem placeholder_cleanup_counterexample:
  "optField (narrative placeholderElsewhereOutput) reviewOfServices = Some ''string''
   \<and> includes_str (toLowerCase ''string'') ''string''
   \<and> optField (signature placeholderElsewhereOutput) signature_text = Some ''String''
   \<and> includes_str (toLowerCase ''String'') ''string''
   \<and> issues (validateCategorizedData placeholderElsewhereOutput) = []
   \<and> optField (signature (corrected (validateCategorizedData placeholderElsewhereOutput)))
        signature_text = Some ''String''
   \<and> signature_text (signature (mergeWithDefaults (validateCategorizedData placeholderElsewhereOutput)))
        = ''String''"
  by code_simp

section \<open>Properties of the LLM text extractor\<close>

subsection \<open>The fence pattern always captures\<close>

lemma jsonFenceRx_captures:
  assumes "st' \<in> set (matchesAt jsonFenceRx st)"
  shows "snd (snd st') \<noteq> None"
proof -
  from assms obtain s1 s2 s3 s4 where
    "s3 \<in> set (matchesAt (Group (RepLazy anyChar 0 None)) s2)"
    "s4 \<in> set (matchesAt (Rep isNewline 0 (Some 1)) s3)"
    "st' \<in> set (matchesAt (Lit backticks) s4)"
    by (auto simp: jsonFenceRx_def simp del: matchesAt.simps(2,7,8,9))
  then show ?thesis
    using matchesAt_keeps_capture [of "Rep isNewline 0 (Some 1)" s4 s3]
      matchesAt_keeps_capture [of "Lit backticks" st' s4]
      matchesAt_Group_captures [of s3 "RepLazy anyChar 0 None" s2]
    by simp
qed

lemma jsonFenceBody_None: "jsonFenceBody response = None \<longleftrightarrow> match response jsonFenceRx = None"
  using searchFrom_captures [of jsonFenceRx "[]" response, OF jsonFenceRx_captures]
  by (auto simp: jsonFenceBody_def match_def split: option.splits)

text \<open>
  C3, as the code has it. The text extractor parses the response in two tiers: the
  response itself, then the body of its first \<open>```json\<close> block. It returns the value of
  the first tier that parses. It raises exactly when the response does not parse and
  there is either no \<open>```json\<close> block or a block whose body does not parse; with no
  block the error is the one with the extractor's message. No span between braces is
  tried.
\<close>

theorem text_extractor_two_tier_fallback:
  "(jsonParse response = Some v \<longrightarrow> parseLLMResponse jsonParse message response = Inr v)
   \<and> (jsonParse response = None \<and> jsonFenceBody response = Some body \<and> jsonParse body = Some v \<longrightarrow>
        parseLLMResponse jsonParse message response = Inr v)
   \<and> (isl (parseLLMResponse jsonParse message response) \<longleftrightarrow>
        jsonParse response = None
        \<and> (case jsonFenceBody response of None \<Rightarrow> True | Some b \<Rightarrow> jsonParse b = None))
   \<and> (jsonParse response = None \<and> jsonFenceBody response = None \<longrightarrow>
        parseLLMResponse jsonParse message response = Inl (Error message))"
  using jsonFenceBody_None [of response]
  by (auto simp: parseLLMResponse_def jsonFenceBody_def split: option.splits)


lemma sample_parses: "JSON_parse sampleJson = Some sampleValue"
  by code_simp

lemma sample_validates: "validateForm sampleValue = Inr sampleForm"
  by code_simp

lemma wrapped_do_not_parse:
  "JSON_parse fencedResponse = None"
  "JSON_parse chattyResponse = None"
  "JSON_parse bareFenceResponse = None"
  by code_simp+

lemma fence_matches:
  "map_option group1 (match fencedResponse jsonFenceRx) = Some (Some sampleJson)"
  "match chattyResponse jsonFenceRx = None"
  "match bareFenceResponse jsonFenceRx = None"
  by code_simp+

lemma code_block_matches:
  "match chattyResponse codeBlockRx = None"
  "map_option group1 (match bareFenceResponse codeBlockRx) = Some (Some sampleJson)"
  by code_simp+

lemma brace_span_matches:
  "map_option matched (match chattyResponse braceSpanRx) = Some sampleJson"
  by code_simp

lemma trim_sample: "trim sampleJson = sampleJson"
  by code_simp

lemmas sample_facts =
  sample_parses wrapped_do_not_parse fence_matches code_block_matches brace_span_matches
  trim_sample

lemma plain_answer_facts:
  "JSON_parse ''n/a'' = None" "match ''n/a'' jsonFenceRx = None"
  by code_simp+

theorem text_extractor_two_tier_fallback_witness:
  "JSON_parse fencedResponse = None
   \<and> jsonFenceBody fencedResponse = Some sampleJson
   \<and> JSON_parse sampleJson = Some sampleValue
   \<and> parseLLMResponse JSON_parse ''Invalid JSON from LLM'' fencedResponse = Inr sampleValue
   \<and> parseLLMResponse JSON_parse ''Invalid JSON from LLM'' sampleJson = Inr sampleValue
   \<and> JSON_parse ''n/a'' = None
   \<and> jsonFenceBody ''n/a'' = None
   \<and> isl (parseLLMResponse JSON_parse ''Invalid JSON from LLM'' ''n/a'')
   \<and> parseLLMResponse JSON_parse ''Invalid JSON from LLM'' ''n/a''
       = Inl (Error ''Invalid JSON from LLM'')"
proof -
  have body: "jsonFenceBody fencedResponse = Some sampleJson"
    using fence_matches(1) by (auto simp: jsonFenceBody_def split: option.splits)
  have none: "jsonFenceBody ''n/a'' = None"
    using plain_answer_facts(2) by (simp add: jsonFenceBody_def)
  from text_extractor_two_tier_fallback
          [of JSON_parse fencedResponse sampleValue "''Invalid JSON from LLM''" sampleJson]
        text_extractor_two_tier_fallback
          [of JSON_parse sampleJson sampleValue "''Invalid JSON from LLM''"]
        text_extractor_two_tier_fallback
          [of JSON_parse "''n/a''" sampleValue "''Invalid JSON from LLM''"]
        body none sample_parses wrapped_do_not_parse plain_answer_facts(1)
  show ?thesis by simp
qed


text \<open>
  The claim as stated fails on a response that puts a sentence before the object: the
  direct parse and the fenced block fail, the span between the braces parses, and the
  text extractor raises all the same. It also raises on a block without the \<open>json\<close> tag,
  which is a fenced code block.
\<close>

theorem three_tier_fallback_counterexample:
  "tierDirect JSON_parse chattyResponse = None
   \<and> tierFencedBlock JSON_parse chattyResponse = None
   \<and> tierBraceSpan JSON_parse chattyResponse = Some sampleValue
   \<and> parseLLMResponse JSON_parse ''Invalid JSON from LLM'' chattyResponse
       = Inl (Error ''Invalid JSON from LLM'')
   \<and> tierFencedBlock JSON_parse bareFenceResponse = Some sampleValue
   \<and> parseLLMResponse JSON_parse ''Invalid JSON from LLM'' bareFenceResponse
       = Inl (Error ''Invalid JSON from LLM'')"
  using sample_facts
  by (auto simp: tierDirect_def tierFencedBlock_def tierBraceSpan_def parseLLMResponse_def
      split: option.splits)


text \<open>The categorizer, which has the three tiers, parses both responses.\<close>

lemma categorizer_parses_chatty_response:
  "parseCategorizerOutput JSON_parse chattyResponse = Inr sampleValue
   \<and> parseCategorizerOutput JSON_parse bareFenceResponse = Inr sampleValue"
  using sample_facts
  by (auto simp: parseCategorizerOutput_def split: option.splits)

section \<open>Properties of the orchestrator\<close>

lemma generateFormWithLLM_no_image: "generateFormWithLLM env tx None = GenerateWithText tx"
  by (simp add: generateFormWithLLM_def)

lemma generateFormWithLLM_vision:
  "p \<noteq> [] \<Longrightarrow> isMultimodalModel env \<Longrightarrow>
   generateFormWithLLM env tx (Some p) = GenerateWithVision p tx"
  by (simp add: generateFormWithLLM_def truthy_def)

lemma priority3_events:
  "\<exists>new. snd (snd (priority3 jp env world tx c available st events)) = events @ new
         \<and> \<not> list_ex isVisionAttempt new \<and> \<not> list_ex sendsImage new"
  by (auto simp: priority3_def ruleBasedFallback_def afterLLMError_def
      generateFormWithLLM_no_image split: sum.splits)

lemma priority2_events:
  "\<exists>new. snd (snd (priority2 jp env world tx c available st events)) = events @ new
         \<and> \<not> list_ex isVisionAttempt new \<and> \<not> list_ex sendsImage new"
proof (cases "available \<and> c < 80")
  case False
  then show ?thesis
    using priority3_events [of jp env world tx c available st events]
    by (auto simp: priority2_def)
next
  case True
  show ?thesis
  proof (cases "parseWithLLMCategorizer world tx c")
    case (Inr result)
    with True show ?thesis by (simp add: priority2_def)
  next
    case (Inl e)
    let ?st = "fst (afterLLMError e st)" and ?m = "snd (afterLLMError e st)"
    have m: "\<not> list_ex isVisionAttempt ?m \<and> \<not> list_ex sendsImage ?m"
      by (simp add: afterLLMError_def)
    from priority3_events [of jp env world tx c available ?st "events @ [Categorizer tx] @ ?m"]
    obtain new where
      "snd (snd (priority3 jp env world tx c available ?st (events @ [Categorizer tx] @ ?m)))
         = (events @ [Categorizer tx] @ ?m) @ new"
      "\<not> list_ex isVisionAttempt new" "\<not> list_ex sendsImage new"
      by blast
    with True Inl m show ?thesis
      by (auto simp: priority2_def split_beta intro!: exI [of _ "[Categorizer tx] @ ?m @ new"])
  qed
qed

lemma health_reachable:
  "checkOllamaHealth env world st =
     (\<not> llmFailed st \<and> DISABLE_LLM env \<noteq> Some ''true'' \<and> tagsOk world,
      if llmFailed st \<or> DISABLE_LLM env = Some ''true'' then [] else [FetchTags])"
  by (simp add: checkOllamaHealth_def)

text \<open>
  C9. A request attempts the vision extractor exactly when an image path is supplied
  (and is not the empty string), the model is multimodal, the runtime is reachable (not
  latched, not disabled, the probe answered) and the OCR confidence is below 50. Only a
  vision attempt sends an image. Without an image path there is no vision attempt,
  whatever the confidence.
\<close>

theorem vision_needs_image_model_and_low_confidence:
  "(list_ex isVisionAttempt (snd (snd (parseFormFromText jp env world st tx c imagePath)))
      \<longleftrightarrow> (\<exists>p. imagePath = Some p \<and> p \<noteq> []) \<and> isMultimodalModel env
          \<and> (\<not> llmFailed st \<and> DISABLE_LLM env \<noteq> Some ''true'' \<and> tagsOk world) \<and> c < 50)
   \<and> (list_ex sendsImage (snd (snd (parseFormFromText jp env world st tx c imagePath)))
      \<longleftrightarrow> list_ex isVisionAttempt (snd (snd (parseFormFromText jp env world st tx c imagePath))))
   \<and> (imagePath = None \<longrightarrow>
        \<not> list_ex isVisionAttempt (snd (snd (parseFormFromText jp env world st tx c imagePath))))"
proof -
  let ?avail = "\<not> llmFailed st \<and> DISABLE_LLM env \<noteq> Some ''true'' \<and> tagsOk world"
  let ?ev0 = "if llmFailed st \<or> DISABLE_LLM env = Some ''true'' then [] else [FetchTags]"
  let ?events = "snd (snd (parseFormFromText jp env world st tx c imagePath))"
  have ev0: "\<not> list_ex isVisionAttempt ?ev0" "\<not> list_ex sendsImage ?ev0" by simp_all
  show ?thesis
  proof (cases "(\<exists>p. imagePath = Some p \<and> p \<noteq> []) \<and> isMultimodalModel env \<and> ?avail \<and> c < 50")
    case True
    then obtain p where p: "imagePath = Some p" "p \<noteq> []" by blast
    from True p have call: "generateFormWithLLM env tx (Some p) = GenerateWithVision p tx"
      by (simp add: generateFormWithLLM_vision)
    show ?thesis
    proof (cases "parseWithVisionLLM jp env world p tx c")
      case (Inr result)
      with True p call show ?thesis
        by (simp add: parseFormFromText_def health_reachable priority1_def truthy_def)
    next
      case (Inl e)
      from priority2_events [of jp env world tx c ?avail st "?ev0 @ [VisionLLM (GenerateWithVision p tx)]"]
      obtain new where
        "snd (snd (priority2 jp env world tx c ?avail st (?ev0 @ [VisionLLM (GenerateWithVision p tx)])))
           = (?ev0 @ [VisionLLM (GenerateWithVision p tx)]) @ new"
        by blast
      with True p call Inl show ?thesis
        by (simp add: parseFormFromText_def health_reachable priority1_def truthy_def)
    qed
  next
    case False
    from priority2_events [of jp env world tx c ?avail st ?ev0]
    obtain new where new:
      "snd (snd (priority2 jp env world tx c ?avail st ?ev0)) = ?ev0 @ new"
      "\<not> list_ex isVisionAttempt new" "\<not> list_ex sendsImage new"
      by blast
    from False have "?events = snd (snd (priority2 jp env world tx c ?avail st ?ev0))"
      by (auto simp: parseFormFromText_def health_reachable priority1_def truthy_def
          split: option.splits)
    with new ev0 False show ?thesis by auto
  qed
qed


lemma llava_multimodal: "isMultimodalModel llavaEnv" "\<not> isMultimodalModel defaultEnv"
  by code_simp+

theorem vision_needs_image_model_and_low_confidence_witness:
  "isMultimodalModel llavaEnv \<and> tagsOk healthyWorld \<and> DISABLE_LLM llavaEnv \<noteq> Some ''true''
   \<and> (40::real) < 50
   \<and> list_ex isVisionAttempt
        (snd (snd (parseFormFromText JSON_parse llavaEnv healthyWorld \<lparr> llmFailed = False \<rparr>
                     ''SIH checked'' 40 (Some ''scan.png''))))
   \<and> \<not> list_ex isVisionAttempt
        (snd (snd (parseFormFromText JSON_parse llavaEnv healthyWorld \<lparr> llmFailed = False \<rparr>
                     ''SIH checked'' 40 None)))
   \<and> \<not> list_ex sendsImage
        (snd (snd (parseFormFromText JSON_parse llavaEnv healthyWorld \<lparr> llmFailed = False \<rparr>
                     ''SIH checked'' 40 None)))
   \<and> \<not> list_ex isVisionAttempt
        (snd (snd (parseFormFromText JSON_parse defaultEnv healthyWorld \<lparr> llmFailed = False \<rparr>
                     ''SIH checked'' 40 (Some ''scan.png''))))"
  using vision_needs_image_model_and_low_confidence
          [of JSON_parse llavaEnv healthyWorld "\<lparr> llmFailed = False \<rparr>" "''SIH checked''" 40
              "Some ''scan.png''"]
        vision_needs_image_model_and_low_confidence
          [of JSON_parse llavaEnv healthyWorld "\<lparr> llmFailed = False \<rparr>" "''SIH checked''" 40 None]
        vision_needs_image_model_and_low_confidence
          [of JSON_parse defaultEnv healthyWorld "\<lparr> llmFailed = False \<rparr>" "''SIH checked''" 40
              "Some ''scan.png''"]
        llava_multimodal
  by (simp add: healthyWorld_def llavaEnv_def defaultEnv_def)


lemma latched_request:
  "llmFailed st \<Longrightarrow>
   parseFormFromText jp env world st tx c imagePath = (parseWithRules tx c False, st, [RuleBased])"
  by (simp add: parseFormFromText_def checkOllamaHealth_def priority1_def priority2_def
      priority3_def ruleBasedFallback_def split: option.splits)

lemma latched_serve:
  "llmFailed st \<Longrightarrow>
   serve jp env st rs =
     (map (\<lambda>q. (parseWithRules (req_text q) (req_confidence q) False, [RuleBased])) rs, st)"
  by (induction rs) (simp_all add: latched_request)

lemma latched_probe: "llmFailed st \<Longrightarrow> checkOllamaHealth env world st = (False, [])"
  by (simp add: checkOllamaHealth_def)

lemma mediocre_request:
  assumes "\<not> llmFailed st" "DISABLE_LLM env \<noteq> Some ''true''" "tagsOk world"
  shows "parseFormFromText jp env world st tx 60 None =
           priority2 jp env world tx 60 True st [FetchTags]"
  using assms by (simp add: parseFormFromText_def checkOllamaHealth_def priority1_def)

lemma priority2_mediocre_events:
  "snd (snd (priority2 jp env world tx 60 True st [FetchTags])) =
     [FetchTags, Categorizer tx] @
     (case parseWithLLMCategorizer world tx 60 of
        Inr result \<Rightarrow> []
      | Inl e \<Rightarrow>
          (if e = TimeoutError then [MarkLLMFailed] else []) @ [TextLLM (GenerateWithText tx)] @
          (case parseWithLLM jp env world tx 60 of
             Inr result \<Rightarrow> []
           | Inl e' \<Rightarrow> (if e' = TimeoutError then [MarkLLMFailed] else []) @ [RuleBased]))"
  by (simp add: priority2_def priority3_def ruleBasedFallback_def afterLLMError_def
      generateFormWithLLM_no_image split: sum.splits)

lemma priority3_state:
  "llmFailed st \<Longrightarrow> llmFailed (fst (snd (priority3 jp env world tx c available st events)))"
  by (simp add: priority3_def ruleBasedFallback_def afterLLMError_def markLLMFailed_def
      split: sum.splits)

lemma priority2_timeout_state:
  "parseWithLLMCategorizer world tx 60 = Inl TimeoutError \<Longrightarrow>
   llmFailed (fst (snd (priority2 jp env world tx 60 True st events)))"
  by (simp add: priority2_def afterLLMError_def priority3_state markLLMFailed_def)

text \<open>
  C8. With the runtime reachable, no image and an OCR confidence of 60, the request
  first probes, then attempts the categorizer; the text extractor is attempted only
  after the categorizer has thrown, and the rules only after both. If the categorizer
  throws a timeout error, the flag is set when the request ends; from then on the probe
  returns false without a fetch, and every later request of the process, whatever its
  runtime, text, confidence and image, runs the rule-based extractor and nothing else.
\<close>

theorem categorizer_first_then_latched:
  assumes "\<not> llmFailed st" and "DISABLE_LLM env \<noteq> Some ''true''" and "tagsOk (req_world r)"
      and "req_image r = None" and "req_confidence r = 60"
  shows "snd (snd (parseFormFromText jp env (req_world r) st (req_text r) 60 None)) =
           [FetchTags, Categorizer (req_text r)] @
           (case parseWithLLMCategorizer (req_world r) (req_text r) 60 of
              Inr result \<Rightarrow> []
            | Inl e \<Rightarrow>
                (if e = TimeoutError then [MarkLLMFailed] else []) @
                [TextLLM (GenerateWithText (req_text r))] @
                (case parseWithLLM jp env (req_world r) (req_text r) 60 of
                   Inr result \<Rightarrow> []
                 | Inl e' \<Rightarrow> (if e' = TimeoutError then [MarkLLMFailed] else []) @ [RuleBased]))
       \<and> (parseWithLLMCategorizer (req_world r) (req_text r) 60 = Inl TimeoutError \<longrightarrow>
            llmFailed (fst (snd (parseFormFromText jp env (req_world r) st (req_text r) 60 None)))
            \<and> (\<forall>world. checkOllamaHealth env world
                  (fst (snd (parseFormFromText jp env (req_world r) st (req_text r) 60 None)))
                  = (False, []))
            \<and> tl (fst (serve jp env st (r # rs))) =
                map (\<lambda>q. (parseWithRules (req_text q) (req_confidence q) False, [RuleBased])) rs
            \<and> llmFailed (snd (serve jp env st (r # rs))))"
proof -
  let ?first = "parseFormFromText jp env (req_world r) st (req_text r) 60 None"
  have first: "?first = priority2 jp env (req_world r) (req_text r) 60 True st [FetchTags]"
    using assms by (simp add: mediocre_request)
  have ev: "snd (snd ?first) =
           [FetchTags, Categorizer (req_text r)] @
           (case parseWithLLMCategorizer (req_world r) (req_text r) 60 of
              Inr result \<Rightarrow> []
            | Inl e \<Rightarrow>
                (if e = TimeoutError then [MarkLLMFailed] else []) @
                [TextLLM (GenerateWithText (req_text r))] @
                (case parseWithLLM jp env (req_world r) (req_text r) 60 of
                   Inr result \<Rightarrow> []
                 | Inl e' \<Rightarrow> (if e' = TimeoutError then [MarkLLMFailed] else []) @ [RuleBased]))"
    unfolding first by (rule priority2_mediocre_events)
  have latch: "parseWithLLMCategorizer (req_world r) (req_text r) 60 = Inl TimeoutError \<longrightarrow>
            llmFailed (fst (snd ?first))
            \<and> (\<forall>world. checkOllamaHealth env world (fst (snd ?first)) = (False, []))
            \<and> tl (fst (serve jp env st (r # rs))) =
                map (\<lambda>q. (parseWithRules (req_text q) (req_confidence q) False, [RuleBased])) rs
            \<and> llmFailed (snd (serve jp env st (r # rs)))"
  proof
    assume t: "parseWithLLMCategorizer (req_world r) (req_text r) 60 = Inl TimeoutError"
    have failed: "llmFailed (fst (snd ?first))"
      unfolding first using t by (rule priority2_timeout_state)
    obtain result st' events where f: "?first = (result, st', events)"
      by (cases ?first) auto
    with failed have st': "llmFailed st'" by simp
    have "serve jp env st (r # rs) =
            ((result, events) #
               map (\<lambda>q. (parseWithRules (req_text q) (req_confidence q) False, [RuleBased])) rs,
             st')"
      using assms f by (simp add: latched_serve [OF st'])
    with failed st' show "llmFailed (fst (snd ?first))
            \<and> (\<forall>world. checkOllamaHealth env world (fst (snd ?first)) = (False, []))
            \<and> tl (fst (serve jp env st (r # rs))) =
                map (\<lambda>q. (parseWithRules (req_text q) (req_confidence q) False, [RuleBased])) rs
            \<and> llmFailed (snd (serve jp env st (r # rs)))"
      by (simp add: latched_probe)
  qed
  from ev latch show ?thesis by blast
qed



lemma stalled_categorizer:
  "parseWithLLMCategorizer stalledWorld ''Name: Bob Smith'' 60 = Inl TimeoutError"
  "parseWithLLM JSON_parse defaultEnv stalledWorld ''Name: Bob Smith'' 60 = Inl TimeoutError"
  by (simp_all add: parseWithLLMCategorizer_def parseWithLLM_def stalledWorld_def)

theorem categorizer_first_then_latched_witness:
  "\<not> llmFailed \<lparr> llmFailed = False \<rparr> \<and> DISABLE_LLM defaultEnv \<noteq> Some ''true''
   \<and> tagsOk (req_world mediocreRequest) \<and> req_image mediocreRequest = None
   \<and> req_confidence mediocreRequest = 60
   \<and> parseWithLLMCategorizer (req_world mediocreRequest) (req_text mediocreRequest) 60
       = Inl TimeoutError
   \<and> snd (snd (parseFormFromText JSON_parse defaultEnv (req_world mediocreRequest)
                  \<lparr> llmFailed = False \<rparr> (req_text mediocreRequest) 60 None))
       = [FetchTags, Categorizer ''Name: Bob Smith'', MarkLLMFailed,
          TextLLM (GenerateWithText ''Name: Bob Smith''), MarkLLMFailed, RuleBased]
   \<and> map snd (tl (fst (serve JSON_parse defaultEnv \<lparr> llmFailed = False \<rparr>
                          [mediocreRequest, laterRequest]))) = [[RuleBased]]
   \<and> llmFailed (snd (serve JSON_parse defaultEnv \<lparr> llmFailed = False \<rparr>
                        [mediocreRequest, laterRequest]))"
proof -
  have h: "\<not> llmFailed \<lparr> llmFailed = False \<rparr>" "DISABLE_LLM defaultEnv \<noteq> Some ''true''"
    "tagsOk (req_world mediocreRequest)" "req_image mediocreRequest = None"
    "req_confidence mediocreRequest = 60"
    by (simp_all add: defaultEnv_def mediocreRequest_def stalledWorld_def)
  have t: "req_world mediocreRequest = stalledWorld" "req_text mediocreRequest = ''Name: Bob Smith''"
    by (simp_all add: mediocreRequest_def)
  from categorizer_first_then_latched [OF h, of JSON_parse "[laterRequest]"] h stalled_categorizer
  show ?thesis
    by (simp add: t)
qed

end
